theory Spec2Isabelle
  imports Complex_Main "HOL-Library.Log_Nat"
begin

section \<open>JavaScript strings and numbers\<close>

text \<open>
  The tools are TypeScript classes working on JavaScript strings. A string is modelled as a
  list of code units, here the code units below 256 (\<^typ>\<open>char\<close>); \<open>length\<close> is the
  JavaScript \<open>.length\<close>. The primitives below follow the ECMAScript definitions of
  \<open>trim\<close>, \<open>startsWith\<close>, \<open>includes\<close>, \<open>endsWith\<close>, \<open>replace\<close> (string pattern, first
  occurrence), \<open>split('\n')\<close> and \<open>toLowerCase\<close> on that alphabet. A character of a
  string literal of the source that lies outside the alphabet (the pictographs that open some
  messages) is written as its UTF-8 bytes.
\<close>

definition newline :: char where
  "newline = CHR 0x0A"

text \<open>White space and line terminators (the class \<open>\s\<close>, and what \<open>trim\<close> strips):
  TAB, LF, VT, FF, CR, SPACE and NBSP.\<close>

definition is_space :: "char \<Rightarrow> bool" where
  "is_space c = (c \<in> set [CHR 0x09, CHR 0x0A, CHR 0x0B, CHR 0x0C, CHR 0x0D, CHR 0x20, CHR 0xA0])"

definition is_digit :: "char \<Rightarrow> bool" where
  "is_digit c = (let n = (of_char c :: nat) in 48 \<le> n \<and> n \<le> 57)"

text \<open>The class \<open>\w\<close>: ASCII letters, digits and the underscore.\<close>

definition is_word :: "char \<Rightarrow> bool" where
  "is_word c = (let n = (of_char c :: nat) in
     (48 \<le> n \<and> n \<le> 57) \<or> (65 \<le> n \<and> n \<le> 90) \<or> n = 95 \<or> (97 \<le> n \<and> n \<le> 122))"

definition trimStart :: "string \<Rightarrow> string" where
  "trimStart s = dropWhile is_space s"

definition trimEnd :: "string \<Rightarrow> string" where
  "trimEnd s = rev (dropWhile is_space (rev s))"

definition trim :: "string \<Rightarrow> string" where
  "trim s = trimEnd (trimStart s)"

definition startsWith :: "string \<Rightarrow> string \<Rightarrow> bool" where
  "startsWith s p = (take (length p) s = p)"

definition endsWith :: "string \<Rightarrow> string \<Rightarrow> bool" where
  "endsWith s p = startsWith (rev s) (rev p)"

fun str_includes :: "string \<Rightarrow> string \<Rightarrow> bool" where
  "str_includes [] sub = (sub = [])"
| "str_includes (c # cs) sub = (startsWith (c # cs) sub \<or> str_includes cs sub)"

text \<open>\<open>s.replace(pat, rep)\<close> with a string pattern: the first occurrence only.\<close>

fun replace :: "string \<Rightarrow> string \<Rightarrow> string \<Rightarrow> string" where
  "replace [] pat rep = (if pat = [] then rep else [])"
| "replace (c # cs) pat rep =
     (if startsWith (c # cs) pat then rep @ drop (length pat) (c # cs)
      else c # replace cs pat rep)"

text \<open>\<open>content.split('\n')\<close>: always at least one line.\<close>

fun split_lines :: "string \<Rightarrow> string list" where
  "split_lines [] = [[]]"
| "split_lines (c # cs) =
     (if c = newline then [] # split_lines cs
      else (case split_lines cs of [] \<Rightarrow> [[c]] | l # ls \<Rightarrow> (c # l) # ls))"

definition lower_char :: "char \<Rightarrow> char" where
  "lower_char c = (let n = (of_char c :: nat) in
     if (65 \<le> n \<and> n \<le> 90) \<or> (192 \<le> n \<and> n \<le> 222 \<and> n \<noteq> 215) then char_of (n + 32) else c)"

definition toLowerCase :: "string \<Rightarrow> string" where
  "toLowerCase s = map lower_char s"

text \<open>\<open>xs.join(sep)\<close> on an array of strings.\<close>

fun join_with :: "string \<Rightarrow> string list \<Rightarrow> string" where
  "join_with sep [] = []"
| "join_with sep [x] = x"
| "join_with sep (x # y # ys) = x @ sep @ join_with sep (y # ys)"

section \<open>DependencyAnalyzer: dependency issue flags\<close>

text \<open>
  \<open>checkDependencyIssues(groupId, artifactId, version, properties)\<close> starts from an empty
  array and pushes one message per check that fires, in the order of the three checks.
  The \<open>properties\<close> argument is not read.
\<close>

definition checkDependencyIssues :: "string \<Rightarrow> string \<Rightarrow> string \<Rightarrow> 'p \<Rightarrow> string list" where
  "checkDependencyIssues groupId artifactId version properties =
     (let issues0 = [];
          issues1 = (if startsWith version ''${'' then issues0 @ [''uses property reference'']
                     else issues0);
          issues2 = (if version = ''LATEST'' \<or> version = ''RELEASE''
                     then issues1 @ [''uses dynamic version''] else issues1);
          issues3 = (if groupId = ''org.springframework'' \<and> str_includes version ''SNAPSHOT''
                     then issues2 @ [''uses snapshot version''] else issues2)
      in issues3)"

text \<open>The part of a dependency's report line that \<open>generateMavenAnalysis\<close> appends after
  the coordinates: the issues, comma-joined, when there are any.\<close>

definition warning_sign :: string where
  "warning_sign = [CHR 0xE2, CHR 0x9A, CHR 0xA0, CHR 0xEF, CHR 0xB8, CHR 0x8F]"

definition issues_suffix :: "string list \<Rightarrow> string" where
  "issues_suffix issues =
     (if length issues > 0 then '' '' @ warning_sign @ '' '' @ join_with '', '' issues else [])"

section \<open>Numbers as the tools print them\<close>

text \<open>Template literals print a non-negative integer in decimal.\<close>

definition digit_char :: "nat \<Rightarrow> char" where
  "digit_char d = ''0123456789'' ! d"

function show_nat :: "nat \<Rightarrow> string" where
  "show_nat n = (if n < 10 then [digit_char n] else show_nat (n div 10) @ [digit_char (n mod 10)])"
  by pat_completeness auto
termination
  by (relation "measure id") auto

declare show_nat.simps [simp del]

text \<open>
  A JavaScript number is an IEEE 754 double. A finite double is modelled by its exact
  value, a rational; beside the finite ones there are \<open>Infinity\<close>, \<open>-Infinity\<close> and \<open>NaN\<close>.
  (Zero has one sign here: no number of the reports is negative, and \<open>toFixed\<close> prints both
  zeros alike.)
\<close>

datatype js_num = Fin rat | PosInf | NegInf | NaN

text \<open>\<open>floor(log2 q)\<close> for a positive rational \<open>q\<close>: the quotient of a \<open>b\<close>-bit numerator by a \<open>c\<close>-bit
  denominator lies between \<open>2^(b-c-1)\<close> and \<open>2^(b-c+1)\<close>.\<close>

definition exponent_of :: "rat \<Rightarrow> int" where
  "exponent_of q =
     (case quotient_of q of (p, d) \<Rightarrow>
        (let k = bitlen p - bitlen d in if 2 powi k \<le> q then k else k - 1))"

text \<open>The nearest integer, the even one of two that are equally near.\<close>

definition round_ties_even :: "rat \<Rightarrow> int" where
  "round_ties_even q =
     (let n = \<lfloor>q\<rfloor>; r = q - of_int n
      in if r < 1 / 2 then n else if 1 / 2 < r then n + 1 else if even n then n else n + 1)"

text \<open>
  The result of an arithmetic operation is the double nearest to the exact result (round to
  nearest, ties to even). A double is \<open>m * 2^e\<close> with an integer \<open>m\<close> of at most 53 bits and
  \<open>-1074 \<le> e \<le> 971\<close>; for the exact result \<open>q\<close> the exponent is \<open>floor(log2 |q|) - 52\<close> (but not
  below \<open>-1074\<close>, where the subnormal numbers are), and \<open>m\<close> is \<open>|q| / 2^e\<close> rounded. A result of
  \<open>2^1024\<close> or more after rounding is infinite.
\<close>

definition to_double :: "rat \<Rightarrow> js_num" where
  "to_double q =
     (if q = 0 then Fin 0
      else (let e = max (exponent_of \<bar>q\<bar> - 52) (- 1074);
                m = round_ties_even (\<bar>q\<bar> / 2 powi e)
            in if 971 < e \<or> (e = 971 \<and> 2 ^ 53 \<le> m) then (if 0 < q then PosInf else NegInf)
               else Fin (sgn q * (of_int m * 2 powi e))))"

text \<open>
  The ratios the reports print are quotients \<open>n / d\<close> of counts (array lengths and sums of
  them; a count is below \<open>2^53\<close> and so a double itself). \<open>n / 0\<close> is \<open>Infinity\<close> for \<open>n > 0\<close>, and
  \<open>0 / 0\<close> is \<open>NaN\<close>.
\<close>

definition js_div :: "nat \<Rightarrow> nat \<Rightarrow> js_num" where
  "js_div n d =
     (if d = 0 then (if n = 0 then NaN else PosInf) else to_double (of_nat n / of_nat d))"

text \<open>\<open>x * k\<close> for a count \<open>k\<close> (\<open>* 100\<close> in the percentages).\<close>

definition js_times :: "js_num \<Rightarrow> nat \<Rightarrow> js_num" where
  "js_times x k =
     (case x of
        Fin q \<Rightarrow> to_double (q * of_nat k)
      | PosInf \<Rightarrow> (if k = 0 then NaN else PosInf)
      | NegInf \<Rightarrow> (if k = 0 then NaN else NegInf)
      | NaN \<Rightarrow> NaN)"

text \<open>
  \<open>x.toFixed(1)\<close>: \<open>NaN\<close> and the infinities print as their names; a finite \<open>x\<close> prints as the
  integer \<open>n\<close> for which \<open>n / 10\<close> is closest to the exact value of \<open>x\<close> (the larger one on a
  tie), with a point before its last digit. (Values of \<open>10^21\<close> and more print differently; no
  ratio of counts reaches them.)
\<close>

definition fixed1 :: "rat \<Rightarrow> string" where
  "fixed1 q = (let n = nat \<lfloor>q * 10 + 1 / 2\<rfloor> in show_nat (n div 10) @ ''.'' @ show_nat (n mod 10))"

definition toFixed1 :: "js_num \<Rightarrow> string" where
  "toFixed1 x = (case x of
       NaN \<Rightarrow> ''NaN''
     | PosInf \<Rightarrow> ''Infinity''
     | NegInf \<Rightarrow> ''-Infinity''
     | Fin q \<Rightarrow> (if q < 0 then ''-'' @ fixed1 (- q) else fixed1 q))"

section \<open>CodeQualityChecker: code smells\<close>

record code_smell =
  smell_type :: string
  smell_description :: string
  smell_line :: nat
  smell_file :: string

text \<open>
  \<open>/\b\d{3,}\b/.test(line)\<close>. A word boundary lies between two positions of which exactly
  one holds a \<open>\w\<close> character (the ends of the line count as not \<open>\w\<close>). Between two digits
  there is no boundary, so a match is a whole run of digits: \<open>magic_at\<close> is a match that
  starts at the head of its argument, after the character \<open>prev\<close>.
\<close>

definition is_word_opt :: "char option \<Rightarrow> bool" where
  "is_word_opt c = (case c of None \<Rightarrow> False | Some x \<Rightarrow> is_word x)"

definition word_boundary :: "char option \<Rightarrow> char option \<Rightarrow> bool" where
  "word_boundary left right = (is_word_opt left \<noteq> is_word_opt right)"

definition first_char :: "string \<Rightarrow> char option" where
  "first_char s = (case s of [] \<Rightarrow> None | c # _ \<Rightarrow> Some c)"

definition magic_at :: "char option \<Rightarrow> string \<Rightarrow> bool" where
  "magic_at prev s =
     (let ds = takeWhile is_digit s; rest = dropWhile is_digit s
      in word_boundary prev (first_char s) \<and> length ds \<ge> 3 \<and>
         word_boundary (first_char (rev ds)) (first_char rest))"

fun magic_search :: "char option \<Rightarrow> string \<Rightarrow> bool" where
  "magic_search prev [] = False"
| "magic_search prev (c # cs) = (magic_at prev (c # cs) \<or> magic_search (Some c) cs)"

definition magicNumberRegex_test :: "string \<Rightarrow> bool" where
  "magicNumberRegex_test line = magic_search None line"

text \<open>
  \<open>detectCodeSmells(lines, filePath)\<close>: the loop over the index \<open>i\<close>, from the line at \<open>i\<close>
  on. \<open>rest\<close> are the lines after it, so \<open>i + 2 < lines.length\<close> says that \<open>rest\<close> has two
  lines at least, and \<open>lines.slice(i + 1, i + 3)\<close> is \<open>take 2 rest\<close>.
\<close>

fun detectCodeSmells_from :: "nat \<Rightarrow> string list \<Rightarrow> string \<Rightarrow> code_smell list" where
  "detectCodeSmells_from i [] filePath = []"
| "detectCodeSmells_from i (raw # rest) filePath =
     (let line = trim raw;
          lineNumber = i + 1;
          longLine =
            (if length line > 120
             then [\<lparr>smell_type = ''Long Line'',
                    smell_description = ''Line too long ('' @ show_nat (length line) @ '' characters)'',
                    smell_line = lineNumber, smell_file = filePath\<rparr>]
             else []);
          indentLevel = length raw - length (trimStart raw);
          deepNesting =
            (if indentLevel > 24
             then [\<lparr>smell_type = ''Deep Nesting'',
                    smell_description = ''Too many levels of nesting'',
                    smell_line = lineNumber, smell_file = filePath\<rparr>]
             else []);
          magicNumber =
            (if magicNumberRegex_test line \<and> \<not> str_includes line ''//'' \<and>
                \<not> str_includes line ''import''
             then [\<lparr>smell_type = ''Magic Number'',
                    smell_description = ''Magic number detected, consider using constants'',
                    smell_line = lineNumber, smell_file = filePath\<rparr>]
             else []);
          emptyCatch =
            (if str_includes line ''catch'' \<and> length rest \<ge> 2
             then (let nextLines = take 2 rest
                   in if list_all (\<lambda>l. trim l = [] \<or> trim l = ''}'') nextLines
                      then [\<lparr>smell_type = ''Empty Catch Block'',
                             smell_description = ''Empty catch block detected'',
                             smell_line = lineNumber, smell_file = filePath\<rparr>]
                      else [])
             else []);
          technicalDebt =
            (if str_includes line ''TODO'' \<or> str_includes line ''FIXME''
             then [\<lparr>smell_type = ''Technical Debt'',
                    smell_description = ''TODO/FIXME comment found'',
                    smell_line = lineNumber, smell_file = filePath\<rparr>]
             else [])
      in longLine @ deepNesting @ magicNumber @ emptyCatch @ technicalDebt @
         detectCodeSmells_from (i + 1) rest filePath)"

definition detectCodeSmells :: "string list \<Rightarrow> string \<Rightarrow> code_smell list" where
  "detectCodeSmells lines filePath = detectCodeSmells_from 0 lines filePath"

section \<open>The file walk\<close>

text \<open>
  What \<open>readdirSync(dir, { withFileTypes: true })\<close> lists: files, directories and entries
  that are neither. A directory carries its own listing, \<open>None\<close> when reading it throws.
\<close>

datatype dirent = File string | Directory string "dirent list option" | Other string

datatype tool =
  DependencyAnalyzer | TestGenerator | CodeQualityChecker | DocumentationGenerator |
  ProjectStructureAnalyzer


definition TestGenerator_shouldSkipDirectory :: "string \<Rightarrow> bool" where
  "TestGenerator_shouldSkipDirectory dirName =
     (dirName \<in> set [''target'', ''build'', ''node_modules'', ''.git'', ''.idea'', ''out''])"

definition DocumentationGenerator_shouldSkipDirectory :: "string \<Rightarrow> bool" where
  "DocumentationGenerator_shouldSkipDirectory dirName =
     (dirName \<in> set [''target'', ''build'', ''node_modules'', ''.git'', ''.idea'', ''out'', ''test''])"

definition ProjectStructureAnalyzer_shouldSkipDirectory :: "string \<Rightarrow> bool" where
  "ProjectStructureAnalyzer_shouldSkipDirectory dirName =
     (dirName \<in> set [''target'', ''build'', ''node_modules'', ''.git'', ''.idea'', ''out'', ''test''])"

definition CodeQualityChecker_shouldSkipDirectory :: "string \<Rightarrow> bool" where
  "CodeQualityChecker_shouldSkipDirectory dirName =
     (dirName \<in> set [''target'', ''build'', ''node_modules'', ''.git'', ''.idea'', ''out'', ''test''])"


text \<open>
  \<open>scanDirectory(dir, javaFiles)\<close>, the same text in the four walking tools but for the
  filter \<open>skip\<close>. The paths pushed to \<open>javaFiles\<close> are returned in the order of the
  pushes. \<open>join\<close> is Node's \<open>path.join\<close>. A listing that cannot be read adds nothing.
\<close>

fun scanDirectory ::
    "(string \<Rightarrow> bool) \<Rightarrow> (string \<Rightarrow> string \<Rightarrow> string) \<Rightarrow> string \<Rightarrow> dirent list option \<Rightarrow> string list"
  and scanEntry ::
    "(string \<Rightarrow> bool) \<Rightarrow> (string \<Rightarrow> string \<Rightarrow> string) \<Rightarrow> string \<Rightarrow> dirent \<Rightarrow> string list"
where
  "scanDirectory skip join dir None = []"
| "scanDirectory skip join dir (Some []) = []"
| "scanDirectory skip join dir (Some (entry # entries)) =
     scanEntry skip join dir entry @ scanDirectory skip join dir (Some entries)"
| "scanEntry skip join dir (Directory name listing) =
     (if \<not> skip name then scanDirectory skip join (join dir name) listing else [])"
| "scanEntry skip join dir (File name) =
     (if endsWith name ''.java'' then [join dir name] else [])"
| "scanEntry skip join dir (Other name) = []"


section \<open>Failures and the world outside\<close>

text \<open>
  A value a JavaScript computation throws: an \<open>Error\<close> object with its message, or any other
  value, with the string \<open>String(value)\<close> gives for it. A computation that may throw returns
  \<open>Inl\<close> of the thrown value; an \<open>async\<close> method that rejects does the same.
\<close>

datatype js_thrown = Error string | Thrown string

text \<open>What every \<open>catch\<close> handler of an \<open>execute\<close> puts after its marker:
  \<open>error instanceof Error ? error.message : String(error)\<close>.\<close>

definition error_text :: "js_thrown \<Rightarrow> string" where
  "error_text error = (case error of Error message \<Rightarrow> message | Thrown s \<Rightarrow> s)"

text \<open>
  The file system as one call sees it: the listing under a path, the result of
  \<open>readFileSync(path, 'utf-8')\<close>, and Node's \<open>path.join\<close>.
\<close>

record world =
  readdirSync :: "string \<Rightarrow> dirent list option"
  readFileSync :: "string \<Rightarrow> js_thrown + string"
  path_join :: "string \<Rightarrow> string \<Rightarrow> string"

text \<open>A computation that reads files: the paths handed to \<open>readFileSync\<close>, in order, and
  the outcome.\<close>

type_synonym 'a reading = "string list \<times> (js_thrown + 'a)"

text \<open>
  The other calls into the file system: \<open>existsSync(path)\<close>, \<open>statSync(path).size\<close>,
  \<open>mkdirSync(path, { recursive: true })\<close> and \<open>writeFileSync(path, content, 'utf-8')\<close>. The
  last two return nothing (\<open>None\<close>) or throw. The outcomes are those of the file system as
  the call finds it: a directory that the call has made itself is made again, with
  the same outcome.
\<close>

record file_system =
  existsSync :: "string \<Rightarrow> bool"
  statSync_size :: "string \<Rightarrow> js_thrown + nat"
  mkdirSync :: "string \<Rightarrow> js_thrown option"
  writeFileSync :: "string \<Rightarrow> string \<Rightarrow> js_thrown option"

text \<open>
  What \<open>execute\<close> is called with. The dispatcher hands \<open>request.params.arguments\<close> to
  \<open>tool.execute\<close>, whose parameter has the type \<open>any\<close> in \<open>JavaProjectAssistant\<close>, without
  looking at it, and a request need not have arguments: the value is an object with the
  properties of the signature, or \<open>undefined\<close>, or \<open>null\<close>.
\<close>

datatype 'a js_arguments = Undefined | Null | Object 'a

text \<open>
  The first statement of every \<open>execute\<close>, before its \<open>try\<close>, takes the arguments apart:
  \<open>const { projectPath, ... } = args\<close>. This throws a \<open>TypeError\<close> when \<open>args\<close> is \<open>undefined\<close> or
  \<open>null\<close>; \<open>projectPath\<close> is the first property in all five.
\<close>

definition cannot_destructure :: "string \<Rightarrow> js_thrown" where
  "cannot_destructure what =
     Error (''Cannot destructure property '' @ [CHR 0x27] @ ''projectPath'' @ [CHR 0x27] @
            '' of '' @ [CHR 0x27] @ ''args'' @ [CHR 0x27] @ '' as it is '' @ what @ ''.'')"

definition destructure :: "'a js_arguments \<Rightarrow> js_thrown + 'a" where
  "destructure args =
     (case args of
        Undefined \<Rightarrow> Inl (cannot_destructure ''undefined'')
      | Null \<Rightarrow> Inl (cannot_destructure ''null'')
      | Object a \<Rightarrow> Inr a)"

section \<open>TestGenerator\<close>

definition cross_mark :: string where
  "cross_mark = [CHR 0xE2, CHR 0x9D, CHR 0x8C]"

definition double_quote :: char where
  "double_quote = CHR 0x22"

definition no_java_files_message :: string where
  "no_java_files_message = cross_mark @ '' No Java files found in the project.''"

definition class_not_found_message :: "string \<Rightarrow> string" where
  "class_not_found_message className =
     cross_mark @ '' Class '' @ [double_quote] @ className @ [double_quote] @
     '' not found in the project.''"

definition TestGenerator_findJavaFiles :: "world \<Rightarrow> string \<Rightarrow> string list" where
  "TestGenerator_findJavaFiles w projectPath =
     scanDirectory TestGenerator_shouldSkipDirectory (path_join w) projectPath
       (readdirSync w projectPath)"

record java_class =
  jc_packageName :: string
  jc_className :: string
  jc_publicMethods :: "string list"
  jc_dependencies :: "string list"

text \<open>
  A regular expression is searched from the left: the first position where it matches
  wins. \<open>regex_search m s\<close> tries the anchored matcher \<open>m\<close> at every suffix of \<open>s\<close> in turn.
\<close>

fun regex_search :: "(string \<Rightarrow> 'a option) \<Rightarrow> string \<Rightarrow> 'a option" where
  "regex_search m [] = m []"
| "regex_search m (c # cs) = (case m (c # cs) of Some r \<Rightarrow> Some r | None \<Rightarrow> regex_search m cs)"

text \<open>
  \<open>/kw\s+(\w+)/\<close> anchored: the keyword, white space, an identifier. White space and \<open>\w\<close>
  are disjoint, so both runs are the longest ones and the capture is the whole identifier.
\<close>

definition keyword_ident_at :: "string \<Rightarrow> string \<Rightarrow> string option" where
  "keyword_ident_at kw s =
     (if startsWith s kw
      then (let r = drop (length kw) s;
                spaces = takeWhile is_space r;
                ident = takeWhile is_word (dropWhile is_space r)
            in if spaces \<noteq> [] \<and> ident \<noteq> [] then Some ident else None)
      else None)"

definition match_keyword_ident :: "string \<Rightarrow> string \<Rightarrow> string option" where
  "match_keyword_ident kw line = regex_search (keyword_ident_at kw) line"

text \<open>The class \<open>[\w<>\[\]]\<close> of the type position in a signature.\<close>

definition is_type_char :: "char \<Rightarrow> bool" where
  "is_type_char c = (is_word c \<or> c \<in> set ''<>[]'')"

text \<open>
  \<open>kw\s+([\w<>\[\]]+)\s+(\w+)\s*T\<close> anchored, for a keyword \<open>kw\<close> and a set \<open>T\<close> of closing
  characters (\<open>(\<close> for a method, \<open>=\<close> or \<open>;\<close> for a field). Neighbouring classes are
  disjoint, so every run is the longest one. The captures are the type and the name.
\<close>

definition signature_at :: "string \<Rightarrow> (char \<Rightarrow> bool) \<Rightarrow> string \<Rightarrow> (string \<times> string) option" where
  "signature_at kw closing s =
     (if startsWith s kw
      then (let r1 = drop (length kw) s;
                spaces1 = takeWhile is_space r1;
                r2 = dropWhile is_space r1;
                ty = takeWhile is_type_char r2;
                r3 = dropWhile is_type_char r2;
                spaces2 = takeWhile is_space r3;
                r4 = dropWhile is_space r3;
                ident = takeWhile is_word r4;
                r5 = dropWhile is_space (dropWhile is_word r4)
            in if spaces1 \<noteq> [] \<and> ty \<noteq> [] \<and> spaces2 \<noteq> [] \<and> ident \<noteq> [] \<and>
                  (case r5 of [] \<Rightarrow> False | c # _ \<Rightarrow> closing c)
               then Some (ty, ident) else None)
      else None)"

text \<open>
  \<open>/import\s+([^;]+)/\<close> anchored. Here the classes overlap: when nothing but a semicolon or
  the end follows the white space, the white space gives its last character back to the
  capture, if it has more than one.
\<close>

definition import_at :: "string \<Rightarrow> string option" where
  "import_at s =
     (if startsWith s ''import''
      then (let r = drop (length ''import'') s;
                spaces = takeWhile is_space r;
                target = takeWhile (\<lambda>c. c \<noteq> CHR '';'') (dropWhile is_space r)
            in if spaces = [] then None
               else if target \<noteq> [] then Some target
               else if length spaces \<ge> 2 then Some [last spaces]
               else None)
      else None)"

text \<open>One iteration of the loop of \<open>analyzeJavaClass\<close>, on the line \<open>raw\<close>.\<close>

definition analyzeJavaClass_line :: "java_class \<Rightarrow> string \<Rightarrow> java_class" where
  "analyzeJavaClass_line st raw =
     (let trimmed = trim raw;
          st1 = (if startsWith trimmed ''package ''
                 then st\<lparr>jc_packageName := trim (replace (replace trimmed ''package '' []) '';'' [])\<rparr>
                 else st);
          st2 = (if str_includes trimmed ''class '' \<and> jc_className st1 = []
                 then (case match_keyword_ident ''class'' trimmed of
                         Some ident \<Rightarrow> st1\<lparr>jc_className := ident\<rparr>
                       | None \<Rightarrow> st1)
                 else st1);
          st3 = (if str_includes trimmed ''public '' \<and> str_includes trimmed ''('' \<and>
                    \<not> str_includes trimmed ''class''
                 then (case regex_search (signature_at ''public'' (\<lambda>c. c = CHR ''('')) trimmed of
                         Some (ty, ident) \<Rightarrow> st2\<lparr>jc_publicMethods := jc_publicMethods st2 @ [ident]\<rparr>
                       | None \<Rightarrow> st2)
                 else st2);
          st4 = (if startsWith trimmed ''import ''
                 then (case regex_search import_at trimmed of
                         Some target \<Rightarrow> st3\<lparr>jc_dependencies := jc_dependencies st3 @ [target]\<rparr>
                       | None \<Rightarrow> st3)
                 else st3)
      in st4)"

definition analyzeJavaClass :: "string \<Rightarrow> java_class" where
  "analyzeJavaClass content =
     foldl analyzeJavaClass_line
       \<lparr>jc_packageName = [], jc_className = [], jc_publicMethods = [], jc_dependencies = []\<rparr>
       (split_lines content)"

text \<open>
  \<open>generateTestForClass(filePath, testFramework)\<close> reads the file, analyses it and renders
  the report. The rendering (\<open>generateTestCode\<close> and the text around it) is the parameter
  \<open>report\<close>; it reads nothing and does not throw.
\<close>

definition generateTestForClass ::
    "world \<Rightarrow> (java_class \<Rightarrow> string \<Rightarrow> string \<Rightarrow> string) \<Rightarrow> string \<Rightarrow> string \<Rightarrow> string reading" where
  "generateTestForClass w report filePath testFramework =
     (case readFileSync w filePath of
        Inl error \<Rightarrow> ([filePath], Inl error)
      | Inr content \<Rightarrow> ([filePath], Inr (report (analyzeJavaClass content) filePath testFramework)))"

text \<open>
  The \<open>try\<close> block of \<open>TestGenerator.execute\<close>. \<open>className\<close> and \<open>testFramework\<close> are optional
  (\<open>None\<close> when absent); \<open>if (className)\<close> holds for a string that is present and not empty,
  and \<open>if (targetFile)\<close> for a path that was found and is not empty.
  \<open>generateTestsForAllClasses\<close>, the branch taken without a class name, is the parameter
  \<open>allClasses\<close>.
\<close>

definition TestGenerator_try ::
    "world \<Rightarrow> (java_class \<Rightarrow> string \<Rightarrow> string \<Rightarrow> string) \<Rightarrow> (string list \<Rightarrow> string \<Rightarrow> string reading) \<Rightarrow>
     string \<Rightarrow> string option \<Rightarrow> string option \<Rightarrow> string reading" where
  "TestGenerator_try w report allClasses projectPath className testFramework =
     (let framework = (case testFramework of None \<Rightarrow> ''junit5'' | Some f \<Rightarrow> f);
          javaFiles = TestGenerator_findJavaFiles w projectPath
      in if length javaFiles = 0 then ([], Inr no_java_files_message)
         else (case className of
                 None \<Rightarrow> allClasses javaFiles framework
               | Some cn \<Rightarrow>
                   if cn \<noteq> []
                   then (case find (\<lambda>file. str_includes (toLowerCase file) (toLowerCase cn)) javaFiles of
                           None \<Rightarrow> ([], Inr (class_not_found_message cn))
                         | Some targetFile \<Rightarrow>
                             if targetFile \<noteq> []
                             then generateTestForClass w report targetFile framework
                             else ([], Inr (class_not_found_message cn)))
                   else allClasses javaFiles framework))"

text \<open>The arguments of \<open>generate_tests\<close>.\<close>

record test_args =
  ta_projectPath :: string
  ta_className :: "string option"
  ta_testFramework :: "string option"

text \<open>
  \<open>execute\<close>: the arguments are taken apart, then comes the \<open>try\<close> block with the handler
  that turns what the block throws into text. What the first statement throws is outside
  the \<open>try\<close>: the promise that \<open>execute\<close> returns is rejected with it (\<open>Inl\<close>).
\<close>

definition TestGenerator_execute ::
    "world \<Rightarrow> (java_class \<Rightarrow> string \<Rightarrow> string \<Rightarrow> string) \<Rightarrow> (string list \<Rightarrow> string \<Rightarrow> string reading) \<Rightarrow>
     test_args js_arguments \<Rightarrow> string reading" where
  "TestGenerator_execute w report allClasses args =
     (case destructure args of
        Inl error \<Rightarrow> ([], Inl error)
      | Inr a \<Rightarrow>
          (case TestGenerator_try w report allClasses (ta_projectPath a) (ta_className a)
                  (ta_testFramework a) of
             (reads, Inl error) \<Rightarrow> (reads, Inr (''Error generating tests: '' @ error_text error))
           | (reads, Inr result) \<Rightarrow> (reads, Inr result)))"

section \<open>The source file parsers\<close>

text \<open>The \<open>type\<close> of a parsed file is one of the strings \<open>class\<close>, \<open>interface\<close>,
  \<open>enum\<close>.\<close>

datatype type_kind = Class | Interface | Enum

definition kind_name :: "type_kind \<Rightarrow> string" where
  "kind_name k = (case k of Class \<Rightarrow> ''class'' | Interface \<Rightarrow> ''interface'' | Enum \<Rightarrow> ''enum'')"

record method_sig =
  m_visibility :: string
  m_returnType :: string
  m_name :: string
  m_javadoc :: string

record field_sig =
  f_visibility :: string
  f_type :: string
  f_name :: string
  f_javadoc :: string

text \<open>
  What \<open>analyzeJavaFile\<close> returns. \<open>ProjectStructureAnalyzer\<close> returns neither imports nor
  Javadoc, for the file or for its members: there they are left empty.
\<close>

record source_record =
  sr_package :: string
  sr_className :: string
  sr_type :: type_kind
  sr_imports :: "string list"
  sr_methods :: "method_sig list"
  sr_fields :: "field_sig list"
  sr_javadoc :: string
  sr_filePath :: string

text \<open>The local variables of the parsing loop.\<close>

record parse_state =
  ps_packageName :: string
  ps_className :: string
  ps_type :: type_kind
  ps_imports :: "string list"
  ps_methods :: "method_sig list"
  ps_fields :: "field_sig list"
  ps_javadoc :: string
  ps_currentJavadoc :: string

definition initial_state :: parse_state where
  "initial_state = \<lparr>ps_packageName = [], ps_className = [], ps_type = Class, ps_imports = [],
     ps_methods = [], ps_fields = [], ps_javadoc = [], ps_currentJavadoc = []\<rparr>"

text \<open>
  \<open>/(public|private|protected)\s+([\w<>\[\]]+)\s+(\w+)\s*T/\<close> anchored: the alternatives in
  their order (at most one of them matches at a position).
\<close>

definition member_at :: "(char \<Rightarrow> bool) \<Rightarrow> string \<Rightarrow> (string \<times> string \<times> string) option" where
  "member_at closing s =
     (case signature_at ''public'' closing s of
        Some (ty, ident) \<Rightarrow> Some (''public'', ty, ident)
      | None \<Rightarrow>
          (case signature_at ''private'' closing s of
             Some (ty, ident) \<Rightarrow> Some (''private'', ty, ident)
           | None \<Rightarrow>
               (case signature_at ''protected'' closing s of
                  Some (ty, ident) \<Rightarrow> Some (''protected'', ty, ident)
                | None \<Rightarrow> None)))"

definition extractMethod :: "string \<Rightarrow> string \<Rightarrow> method_sig option" where
  "extractMethod line javadoc =
     (case regex_search (member_at (\<lambda>c. c = CHR ''('')) line of
        Some (v, ty, ident) \<Rightarrow>
          Some \<lparr>m_visibility = v, m_returnType = ty, m_name = ident, m_javadoc = trim javadoc\<rparr>
      | None \<Rightarrow> None)"

definition extractField :: "string \<Rightarrow> string \<Rightarrow> field_sig option" where
  "extractField line javadoc =
     (case regex_search (member_at (\<lambda>c. c = CHR ''='' \<or> c = CHR '';'')) line of
        Some (v, ty, ident) \<Rightarrow>
          Some \<lparr>f_visibility = v, f_type = ty, f_name = ident, f_javadoc = trim javadoc\<rparr>
      | None \<Rightarrow> None)"

definition has_visibility :: "string \<Rightarrow> bool" where
  "has_visibility line =
     (str_includes line ''public '' \<or> str_includes line ''private '' \<or>
      str_includes line ''protected '')"

definition is_type_line :: "string \<Rightarrow> bool" where
  "is_type_line line =
     (str_includes line ''class '' \<or> str_includes line ''interface '' \<or> str_includes line ''enum '')"

definition is_method_line :: "string \<Rightarrow> bool" where
  "is_method_line line = (str_includes line ''('' \<and> str_includes line '')'' \<and> has_visibility line)"

definition is_field_line :: "string \<Rightarrow> bool" where
  "is_field_line line = (str_includes line '';'' \<and> \<not> str_includes line ''('' \<and> has_visibility line)"

text \<open>The six parts of the loop body of \<open>DocumentationGenerator.analyzeJavaFile\<close>, in the
  order of the source; \<open>line\<close> is the trimmed line.\<close>

definition extract_package :: "string \<Rightarrow> parse_state \<Rightarrow> parse_state" where
  "extract_package line st =
     (if startsWith line ''package ''
      then st\<lparr>ps_packageName := trim (replace (replace line ''package '' []) '';'' [])\<rparr>
      else st)"

definition extract_imports :: "string \<Rightarrow> parse_state \<Rightarrow> parse_state" where
  "extract_imports line st =
     (if startsWith line ''import ''
      then st\<lparr>ps_imports := ps_imports st @ [trim (replace (replace line ''import '' []) '';'' [])]\<rparr>
      else st)"

text \<open>The keyword decides the kind, \<open>interface\<close> before \<open>enum\<close> before \<open>class\<close>; the name changes
  when the pattern of that keyword matches. Every such line assigns both.\<close>

definition assign_type :: "string \<Rightarrow> parse_state \<Rightarrow> parse_state" where
  "assign_type line st =
     (if str_includes line ''interface ''
      then (case match_keyword_ident ''interface'' line of
              Some ident \<Rightarrow> st\<lparr>ps_type := Interface, ps_className := ident\<rparr>
            | None \<Rightarrow> st\<lparr>ps_type := Interface\<rparr>)
      else if str_includes line ''enum ''
      then (case match_keyword_ident ''enum'' line of
              Some ident \<Rightarrow> st\<lparr>ps_type := Enum, ps_className := ident\<rparr>
            | None \<Rightarrow> st\<lparr>ps_type := Enum\<rparr>)
      else (case match_keyword_ident ''class'' line of
              Some ident \<Rightarrow> st\<lparr>ps_type := Class, ps_className := ident\<rparr>
            | None \<Rightarrow> st\<lparr>ps_type := Class\<rparr>))"

definition extract_class :: "string \<Rightarrow> parse_state \<Rightarrow> parse_state" where
  "extract_class line st =
     (if is_type_line line
      then (let st' = assign_type line st
            in st'\<lparr>ps_javadoc := ps_currentJavadoc st', ps_currentJavadoc := []\<rparr>)
      else st)"

definition extract_methods :: "string \<Rightarrow> parse_state \<Rightarrow> parse_state" where
  "extract_methods line st =
     (if is_method_line line
      then (case extractMethod line (ps_currentJavadoc st) of
              Some method \<Rightarrow> st\<lparr>ps_methods := ps_methods st @ [method], ps_currentJavadoc := []\<rparr>
            | None \<Rightarrow> st)
      else st)"

definition extract_fields :: "string \<Rightarrow> parse_state \<Rightarrow> parse_state" where
  "extract_fields line st =
     (if is_field_line line
      then (case extractField line (ps_currentJavadoc st) of
              Some field \<Rightarrow> st\<lparr>ps_fields := ps_fields st @ [field], ps_currentJavadoc := []\<rparr>
            | None \<Rightarrow> st)
      else st)"

definition is_javadoc_line :: "string \<Rightarrow> bool" where
  "is_javadoc_line line =
     (startsWith line ''/**'' \<or> startsWith line ''*'' \<or> str_includes line ''*/'')"

definition collect_javadoc :: "string \<Rightarrow> parse_state \<Rightarrow> parse_state" where
  "collect_javadoc line st =
     (if is_javadoc_line line
      then st\<lparr>ps_currentJavadoc := ps_currentJavadoc st @ line @ [newline]\<rparr>
      else if \<not> startsWith line ''//'' \<and> line \<noteq> []
      then st\<lparr>ps_currentJavadoc := []\<rparr>
      else st)"

definition DocumentationGenerator_line :: "parse_state \<Rightarrow> string \<Rightarrow> parse_state" where
  "DocumentationGenerator_line st raw =
     (let line = trim raw
      in collect_javadoc line (extract_fields line (extract_methods line
           (extract_class line (extract_imports line (extract_package line st))))))"

definition DocumentationGenerator_analyzeJavaFile :: "string \<Rightarrow> string \<Rightarrow> source_record" where
  "DocumentationGenerator_analyzeJavaFile content filePath =
     (let st = foldl DocumentationGenerator_line initial_state (split_lines content)
      in \<lparr>sr_package = ps_packageName st, sr_className = ps_className st, sr_type = ps_type st,
          sr_imports = ps_imports st, sr_methods = ps_methods st, sr_fields = ps_fields st,
          sr_javadoc = ps_javadoc st, sr_filePath = filePath\<rparr>)"

text \<open>
  \<open>ProjectStructureAnalyzer.analyzeJavaFile\<close>: the same loop without imports and without
  Javadoc. The type lines assign kind and name as above; methods and fields are matched
  inline with the patterns of \<open>extractMethod\<close> and \<open>extractField\<close>.
\<close>

definition ProjectStructureAnalyzer_line :: "parse_state \<Rightarrow> string \<Rightarrow> parse_state" where
  "ProjectStructureAnalyzer_line st raw =
     (let trimmed = trim raw;
          st1 = extract_package trimmed st;
          st2 = (if is_type_line trimmed then assign_type trimmed st1 else st1);
          st3 = (if is_method_line trimmed
                 then (case regex_search (member_at (\<lambda>c. c = CHR ''('')) trimmed of
                         Some (v, ty, ident) \<Rightarrow>
                           st2\<lparr>ps_methods := ps_methods st2 @
                              [\<lparr>m_visibility = v, m_returnType = ty, m_name = ident, m_javadoc = []\<rparr>]\<rparr>
                       | None \<Rightarrow> st2)
                 else st2);
          st4 = (if is_field_line trimmed
                 then (case regex_search (member_at (\<lambda>c. c = CHR ''='' \<or> c = CHR '';'')) trimmed of
                         Some (v, ty, ident) \<Rightarrow>
                           st3\<lparr>ps_fields := ps_fields st3 @
                              [\<lparr>f_visibility = v, f_type = ty, f_name = ident, f_javadoc = []\<rparr>]\<rparr>
                       | None \<Rightarrow> st3)
                 else st3)
      in st4)"

definition ProjectStructureAnalyzer_analyzeJavaFile :: "string \<Rightarrow> string \<Rightarrow> source_record" where
  "ProjectStructureAnalyzer_analyzeJavaFile content filePath =
     (let st = foldl ProjectStructureAnalyzer_line initial_state (split_lines content)
      in \<lparr>sr_package = ps_packageName st, sr_className = ps_className st, sr_type = ps_type st,
          sr_imports = [], sr_methods = ps_methods st, sr_fields = ps_fields st,
          sr_javadoc = [], sr_filePath = filePath\<rparr>)"

section \<open>The aggregators\<close>

text \<open>
  \<open>packages\<close> is a plain object used as a dictionary. Its own properties are kept in the
  order of their creation, as \<open>Object.entries\<close> and \<open>Object.values\<close> list them (keys that
  are array indices would be listed first; no count or sum below depends on the order).
\<close>

fun obj_set :: "string \<Rightarrow> 'v \<Rightarrow> (string \<times> 'v) list \<Rightarrow> (string \<times> 'v) list" where
  "obj_set k v [] = [(k, v)]"
| "obj_set k v ((k', v') # kvs) = (if k' = k then (k, v) # kvs else (k', v') # obj_set k v kvs)"

text \<open>
  A lookup \<open>packages[key]\<close> also finds what the object inherits from \<open>Object.prototype\<close>.
  For these keys \<open>!packages[key]\<close> is false although the object has no such package, no
  aggregate is created, and the \<open>push\<close> on the list the inherited value does not have
  throws a \<open>TypeError\<close>.
\<close>

definition object_prototype_keys :: "string list" where
  "object_prototype_keys =
     [''constructor'', ''__defineGetter__'', ''__defineSetter__'', ''hasOwnProperty'',
      ''__lookupGetter__'', ''__lookupSetter__'', ''isPrototypeOf'', ''propertyIsEnumerable'',
      ''toString'', ''valueOf'', ''__proto__'', ''toLocaleString'']"

definition push_of_undefined :: js_thrown where
  "push_of_undefined =
     Error (''Cannot read properties of undefined (reading '' @ [CHR 0x27] @ ''push'' @
            [CHR 0x27] @ '')'')"

record dg_package =
  dgp_name :: string
  dgp_classes :: "source_record list"
  dgp_interfaces :: "source_record list"
  dgp_enums :: "source_record list"
  dgp_methods :: nat

record psa_package =
  pp_name :: string
  pp_classes :: "source_record list"
  pp_interfaces :: "source_record list"
  pp_enums :: "source_record list"
  pp_totalMethods :: nat
  pp_totalFields :: nat
  pp_fileCount :: nat

record 'p analysis =
  an_packages :: "(string \<times> 'p) list"
  an_classes :: "source_record list"
  an_interfaces :: "source_record list"
  an_enums :: "source_record list"
  an_totalFiles :: nat

text \<open>The flat lists: \<open>classes.push\<close>, \<open>interfaces.push\<close> or \<open>enums.push\<close>, by the type.\<close>

definition push_flat :: "source_record \<Rightarrow> 'p analysis \<Rightarrow> 'p analysis" where
  "push_flat a st =
     (case sr_type a of
        Class \<Rightarrow> st\<lparr>an_classes := an_classes st @ [a]\<rparr>
      | Interface \<Rightarrow> st\<lparr>an_interfaces := an_interfaces st @ [a]\<rparr>
      | Enum \<Rightarrow> st\<lparr>an_enums := an_enums st @ [a]\<rparr>)"

text \<open>
  The loop body of \<open>DocumentationGenerator.analyzeProject\<close> after the file is parsed. A
  record with a package goes to the \<open>classes\<close> list of the package's aggregate whatever its
  type is; the flat lists are filled for every record.
\<close>

definition DocumentationGenerator_add ::
    "source_record \<Rightarrow> dg_package analysis \<Rightarrow> js_thrown + dg_package analysis" where
  "DocumentationGenerator_add a st =
     (if sr_package a \<noteq> []
      then (if sr_package a \<in> set object_prototype_keys then Inl push_of_undefined
            else (let pkg = (case map_of (an_packages st) (sr_package a) of
                               None \<Rightarrow> \<lparr>dgp_name = sr_package a, dgp_classes = [], dgp_interfaces = [],
                                         dgp_enums = [], dgp_methods = 0\<rparr>
                             | Some p \<Rightarrow> p);
                      pkg' = pkg\<lparr>dgp_classes := dgp_classes pkg @ [a],
                                 dgp_methods := dgp_methods pkg + length (sr_methods a)\<rparr>
                  in Inr (push_flat a (st\<lparr>an_packages := obj_set (sr_package a) pkg' (an_packages st)\<rparr>))))
      else Inr (push_flat a st))"

fun DocumentationGenerator_loop ::
    "world \<Rightarrow> string list \<Rightarrow> dg_package analysis \<Rightarrow> js_thrown + dg_package analysis" where
  "DocumentationGenerator_loop w [] st = Inr st"
| "DocumentationGenerator_loop w (filePath # rest) st =
     (case readFileSync w filePath of
        Inl error \<Rightarrow> Inl error
      | Inr content \<Rightarrow>
          (case DocumentationGenerator_add (DocumentationGenerator_analyzeJavaFile content filePath) st of
             Inl error \<Rightarrow> Inl error
           | Inr st' \<Rightarrow> DocumentationGenerator_loop w rest st'))"

definition DocumentationGenerator_analyzeProject ::
    "world \<Rightarrow> string list \<Rightarrow> js_thrown + dg_package analysis" where
  "DocumentationGenerator_analyzeProject w javaFiles =
     DocumentationGenerator_loop w javaFiles
       \<lparr>an_packages = [], an_classes = [], an_interfaces = [], an_enums = [],
        an_totalFiles = length javaFiles\<rparr>"

text \<open>
  The loop body of \<open>ProjectStructureAnalyzer.analyzeProjectStructure\<close>. Everything happens
  inside \<open>if (analysis.package)\<close>: the counters, the list of the aggregate that matches the
  type, and the flat list. (The \<open>directoryStructure\<close> the method also fills is read by no
  report and is left out.)
\<close>

definition ProjectStructureAnalyzer_add ::
    "source_record \<Rightarrow> psa_package analysis \<Rightarrow> js_thrown + psa_package analysis" where
  "ProjectStructureAnalyzer_add a st =
     (if sr_package a \<noteq> []
      then (if sr_package a \<in> set object_prototype_keys then Inl push_of_undefined
            else (let pkg = (case map_of (an_packages st) (sr_package a) of
                               None \<Rightarrow> \<lparr>pp_name = sr_package a, pp_classes = [], pp_interfaces = [],
                                         pp_enums = [], pp_totalMethods = 0, pp_totalFields = 0,
                                         pp_fileCount = 0\<rparr>
                             | Some p \<Rightarrow> p);
                      pkg1 = pkg\<lparr>pp_fileCount := pp_fileCount pkg + 1,
                                 pp_totalMethods := pp_totalMethods pkg + length (sr_methods a),
                                 pp_totalFields := pp_totalFields pkg + length (sr_fields a)\<rparr>;
                      pkg2 = (case sr_type a of
                                Class \<Rightarrow> pkg1\<lparr>pp_classes := pp_classes pkg1 @ [a]\<rparr>
                              | Interface \<Rightarrow> pkg1\<lparr>pp_interfaces := pp_interfaces pkg1 @ [a]\<rparr>
                              | Enum \<Rightarrow> pkg1\<lparr>pp_enums := pp_enums pkg1 @ [a]\<rparr>)
                  in Inr (push_flat a (st\<lparr>an_packages := obj_set (sr_package a) pkg2 (an_packages st)\<rparr>))))
      else Inr st)"

fun ProjectStructureAnalyzer_loop ::
    "world \<Rightarrow> string list \<Rightarrow> psa_package analysis \<Rightarrow> js_thrown + psa_package analysis" where
  "ProjectStructureAnalyzer_loop w [] st = Inr st"
| "ProjectStructureAnalyzer_loop w (filePath # rest) st =
     (case readFileSync w filePath of
        Inl error \<Rightarrow> Inl error
      | Inr content \<Rightarrow>
          (case ProjectStructureAnalyzer_add (ProjectStructureAnalyzer_analyzeJavaFile content filePath) st of
             Inl error \<Rightarrow> Inl error
           | Inr st' \<Rightarrow> ProjectStructureAnalyzer_loop w rest st'))"

definition ProjectStructureAnalyzer_analyzeProjectStructure ::
    "world \<Rightarrow> string list \<Rightarrow> js_thrown + psa_package analysis" where
  "ProjectStructureAnalyzer_analyzeProjectStructure w javaFiles =
     ProjectStructureAnalyzer_loop w javaFiles
       \<lparr>an_packages = [], an_classes = [], an_interfaces = [], an_enums = [],
        an_totalFiles = length javaFiles\<rparr>"

text \<open>The keys of the aggregates whose member lists hold a record.\<close>

definition dg_aggregates_holding :: "source_record \<Rightarrow> dg_package analysis \<Rightarrow> string list" where
  "dg_aggregates_holding r m =
     map fst (filter (\<lambda>(k, p). r \<in> set (dgp_classes p @ dgp_interfaces p @ dgp_enums p)) (an_packages m))"

definition psa_aggregates_holding :: "source_record \<Rightarrow> psa_package analysis \<Rightarrow> string list" where
  "psa_aggregates_holding r m =
     map fst (filter (\<lambda>(k, p). r \<in> set (pp_classes p @ pp_interfaces p @ pp_enums p)) (an_packages m))"

text \<open>The records of the files as the loops parse them (the content of a file that cannot
  be read counts as empty here; the loops stop at such a file).\<close>

definition file_content :: "world \<Rightarrow> string \<Rightarrow> string" where
  "file_content w filePath = (case readFileSync w filePath of Inl error \<Rightarrow> [] | Inr content \<Rightarrow> content)"

definition dg_records :: "world \<Rightarrow> string list \<Rightarrow> source_record list" where
  "dg_records w javaFiles =
     map (\<lambda>filePath. DocumentationGenerator_analyzeJavaFile (file_content w filePath) filePath) javaFiles"

definition psa_records :: "world \<Rightarrow> string list \<Rightarrow> source_record list" where
  "psa_records w javaFiles =
     map (\<lambda>filePath. ProjectStructureAnalyzer_analyzeJavaFile (file_content w filePath) filePath) javaFiles"

section \<open>The reports\<close>

text \<open>\<open>Object.values(analysis.packages).reduce((sum, pkg) => sum + pkg.methods, 0)\<close>.\<close>

definition dg_totalMethods :: "dg_package analysis \<Rightarrow> nat" where
  "dg_totalMethods a = foldl (\<lambda>sum pkg. sum + dgp_methods pkg) 0 (map snd (an_packages a))"

definition dg_avgMethodsPerClass :: "dg_package analysis \<Rightarrow> js_num" where
  "dg_avgMethodsPerClass a = js_div (dg_totalMethods a) (length (an_classes a))"

definition dg_interfaceUsage :: "dg_package analysis \<Rightarrow> js_num" where
  "dg_interfaceUsage a = js_times (js_div (length (an_interfaces a)) (length (an_classes a))) 100"

text \<open>The package section of \<open>generateProjectOverview\<close>: one block per aggregate.\<close>

definition overview_package :: "string \<times> dg_package \<Rightarrow> string" where
  "overview_package entry =
     (case entry of (packageName, pkg) \<Rightarrow>
        ''### '' @ packageName @ [newline] @
        ''- **Classes:** '' @ show_nat (length (dgp_classes pkg)) @ [newline] @
        ''- **Methods:** '' @ show_nat (dgp_methods pkg) @ [newline, newline] @
        concat (map (\<lambda>cls. ''- **'' @ sr_className cls @ ''** ('' @ kind_name (sr_type cls) @ '')'' @
                           [newline]) (dgp_classes pkg)) @
        [newline])"

text \<open>The last lines of \<open>generateProjectOverview\<close>, the architecture insights.\<close>

definition overview_insights :: "dg_package analysis \<Rightarrow> string" where
  "overview_insights a =
     ''- **Average methods per class:** '' @ toFixed1 (dg_avgMethodsPerClass a) @ [newline] @
     ''- **Package distribution:** '' @ show_nat (length (an_packages a)) @ '' packages'' @ [newline] @
     (if length (an_interfaces a) > 0
      then ''- **Interface usage:** '' @ toFixed1 (dg_interfaceUsage a) @
           ''% of classes are interfaces'' @ [newline]
      else [])"

definition generateProjectOverview :: "dg_package analysis \<Rightarrow> string" where
  "generateProjectOverview a =
     ''# Project Overview'' @ [newline, newline] @
     ''**Total Files:** '' @ show_nat (an_totalFiles a) @ [newline] @
     ''**Classes:** '' @ show_nat (length (an_classes a)) @ [newline] @
     ''**Interfaces:** '' @ show_nat (length (an_interfaces a)) @ [newline] @
     ''**Enums:** '' @ show_nat (length (an_enums a)) @ [newline, newline] @
     ''## Package Structure'' @ [newline, newline] @
     concat (map overview_package (an_packages a)) @
     ''## Architecture Overview'' @ [newline, newline] @
     ''This section provides a high-level view of the project structure:'' @ [newline, newline] @
     overview_insights a"

text \<open>\<open>ProjectStructureAnalyzer\<close>: the quantities of \<open>generateProjectMetrics\<close> and
  \<open>generateArchitectureAnalysis\<close> that are ratios, and the lines that print them.\<close>

definition psa_totalMethods :: "psa_package analysis \<Rightarrow> nat" where
  "psa_totalMethods a = foldl (\<lambda>sum pkg. sum + pp_totalMethods pkg) 0 (map snd (an_packages a))"

definition psa_totalFields :: "psa_package analysis \<Rightarrow> nat" where
  "psa_totalFields a = foldl (\<lambda>sum pkg. sum + pp_totalFields pkg) 0 (map snd (an_packages a))"

definition psa_avgMethodsPerClass :: "psa_package analysis \<Rightarrow> js_num" where
  "psa_avgMethodsPerClass a = js_div (psa_totalMethods a) (max (length (an_classes a)) 1)"

definition psa_avgFieldsPerClass :: "psa_package analysis \<Rightarrow> js_num" where
  "psa_avgFieldsPerClass a = js_div (psa_totalFields a) (max (length (an_classes a)) 1)"

definition psa_classInterfaceRatio :: "psa_package analysis \<Rightarrow> js_num" where
  "psa_classInterfaceRatio a = js_div (length (an_classes a)) (max (length (an_interfaces a)) 1)"


definition metrics_average_methods_line :: "psa_package analysis \<Rightarrow> string" where
  "metrics_average_methods_line a =
     ''- **Average methods per class:** '' @ toFixed1 (psa_avgMethodsPerClass a) @ [newline]"


section \<open>The other entry points\<close>

text \<open>
  The other four \<open>execute\<close> methods have the shape of the first: the arguments are taken
  apart, the rest runs inside one \<open>try\<close> with every asynchronous call awaited there, and the
  handler returns the marker of the tool followed by the text of what was thrown. Below,
  every call that can throw is a step of the \<open>try\<close> block. The functions that only build
  text from what was read are parameters.
\<close>

subsection \<open>DependencyAnalyzer\<close>

record dependency_args =
  da_projectPath :: string

definition no_manifest_message :: string where
  "no_manifest_message =
     cross_mark @ '' No Maven (pom.xml) or Gradle (build.gradle) files found in the project.''"

text \<open>
  \<open>analyzeMavenDependencies\<close> reads the file and hands the text to \<open>parseString\<close> of the
  package \<open>xml2js\<close>, which answers with an error or with the parsed document. The promise
  is rejected with that error, or with what the handling of the document throws
  (\<open>mavenAnalysis\<close>: the \<open>try\<close> block of the callback, which takes the dependencies out of the
  document and calls \<open>generateMavenAnalysis\<close>).
\<close>

definition analyzeMavenDependencies ::
    "world \<Rightarrow> (string \<Rightarrow> js_thrown + 'x) \<Rightarrow> ('x \<Rightarrow> js_thrown + string) \<Rightarrow> string \<Rightarrow>
     js_thrown + string" where
  "analyzeMavenDependencies w parseString mavenAnalysis pomPath =
     (case readFileSync w pomPath of
        Inl error \<Rightarrow> Inl error
      | Inr pomContent \<Rightarrow>
          (case parseString pomContent of
             Inl err \<Rightarrow> Inl err
           | Inr result \<Rightarrow> mavenAnalysis result))"

text \<open>\<open>analyzeGradleDependencies\<close> reads the file and builds its text (\<open>gradleAnalysis\<close>) from
  the matches of three patterns.\<close>

definition analyzeGradleDependencies ::
    "world \<Rightarrow> (string \<Rightarrow> string) \<Rightarrow> string \<Rightarrow> js_thrown + string" where
  "analyzeGradleDependencies w gradleAnalysis buildGradlePath =
     (case readFileSync w buildGradlePath of
        Inl error \<Rightarrow> Inl error
      | Inr gradleContent \<Rightarrow> Inr (gradleAnalysis gradleContent))"

definition DependencyAnalyzer_try ::
    "world \<Rightarrow> file_system \<Rightarrow> (string \<Rightarrow> js_thrown + 'x) \<Rightarrow> ('x \<Rightarrow> js_thrown + string) \<Rightarrow>
     (string \<Rightarrow> string) \<Rightarrow> string \<Rightarrow> js_thrown + string" where
  "DependencyAnalyzer_try w fs parseString mavenAnalysis gradleAnalysis projectPath =
     (let pomPath = path_join w projectPath ''pom.xml'';
          buildGradlePath = path_join w projectPath ''build.gradle''
      in case (if existsSync fs pomPath
               then (case analyzeMavenDependencies w parseString mavenAnalysis pomPath of
                       Inl error \<Rightarrow> Inl error
                     | Inr analysis \<Rightarrow> Inr [analysis])
               else Inr []) of
           Inl error \<Rightarrow> Inl error
         | Inr results \<Rightarrow>
             (case (if existsSync fs buildGradlePath
                    then (case analyzeGradleDependencies w gradleAnalysis buildGradlePath of
                            Inl error \<Rightarrow> Inl error
                          | Inr analysis \<Rightarrow> Inr (results @ [analysis]))
                    else Inr results) of
                Inl error \<Rightarrow> Inl error
              | Inr results \<Rightarrow>
                  if length results = 0 then Inr no_manifest_message
                  else Inr (join_with [newline, newline] results)))"

definition DependencyAnalyzer_execute ::
    "world \<Rightarrow> file_system \<Rightarrow> (string \<Rightarrow> js_thrown + 'x) \<Rightarrow> ('x \<Rightarrow> js_thrown + string) \<Rightarrow>
     (string \<Rightarrow> string) \<Rightarrow> dependency_args js_arguments \<Rightarrow> js_thrown + string" where
  "DependencyAnalyzer_execute w fs parseString mavenAnalysis gradleAnalysis args =
     (case destructure args of
        Inl error \<Rightarrow> Inl error
      | Inr a \<Rightarrow>
          (case DependencyAnalyzer_try w fs parseString mavenAnalysis gradleAnalysis
                  (da_projectPath a) of
             Inl error \<Rightarrow> Inr (''Error analyzing dependencies: '' @ error_text error)
           | Inr result \<Rightarrow> Inr result))"

subsection \<open>CodeQualityChecker\<close>

record quality_args =
  qa_projectPath :: string
  qa_filePath :: "string option"
  qa_includeMetrics :: "bool option"

text \<open>In the source text of this class the cross mark of the messages is the two
  characters \<open>U+00E2\<close> and \<open>U+0152\<close>.\<close>

definition CodeQualityChecker_cross_mark :: string where
  "CodeQualityChecker_cross_mark = [CHR 0xE2, CHR 0xC5, CHR 0x92]"

definition file_not_found_message :: "string \<Rightarrow> string" where
  "file_not_found_message filePath = CodeQualityChecker_cross_mark @ '' File not found: '' @ filePath"

definition CodeQualityChecker_no_java_files_message :: string where
  "CodeQualityChecker_no_java_files_message =
     CodeQualityChecker_cross_mark @ '' No Java files found in the project.''"

definition CodeQualityChecker_findJavaFiles :: "world \<Rightarrow> string \<Rightarrow> string list" where
  "CodeQualityChecker_findJavaFiles w projectPath =
     scanDirectory CodeQualityChecker_shouldSkipDirectory (path_join w) projectPath
       (readdirSync w projectPath)"

text \<open>
  \<open>analyzeSingleFile\<close>: the file is read and analysed, then the text is built
  (\<open>fileReport\<close>), for which the size of the file is asked.
\<close>

definition analyzeSingleFile ::
    "world \<Rightarrow> file_system \<Rightarrow> (string \<Rightarrow> string \<Rightarrow> nat \<Rightarrow> bool \<Rightarrow> string) \<Rightarrow> string \<Rightarrow> bool \<Rightarrow>
     js_thrown + string" where
  "analyzeSingleFile w fs fileReport filePath includeMetrics =
     (if \<not> existsSync fs filePath then Inr (file_not_found_message filePath)
      else (case readFileSync w filePath of
              Inl error \<Rightarrow> Inl error
            | Inr content \<Rightarrow>
                (case statSync_size fs filePath of
                   Inl error \<Rightarrow> Inl error
                 | Inr bytes \<Rightarrow> Inr (fileReport content filePath bytes includeMetrics))))"

text \<open>The loop over the files of \<open>analyzeProject\<close>: every file is read, in order; the first
  that cannot be read ends the loop.\<close>

fun read_files :: "world \<Rightarrow> string list \<Rightarrow> js_thrown + (string \<times> string) list" where
  "read_files w [] = Inr []"
| "read_files w (filePath # rest) =
     (case readFileSync w filePath of
        Inl error \<Rightarrow> Inl error
      | Inr content \<Rightarrow>
          (case read_files w rest of
             Inl error \<Rightarrow> Inl error
           | Inr contents \<Rightarrow> Inr ((filePath, content) # contents)))"

definition CodeQualityChecker_analyzeProject ::
    "world \<Rightarrow> ((string \<times> string) list \<Rightarrow> bool \<Rightarrow> string) \<Rightarrow> string \<Rightarrow> bool \<Rightarrow>
     js_thrown + string" where
  "CodeQualityChecker_analyzeProject w projectReport projectPath includeMetrics =
     (let javaFiles = CodeQualityChecker_findJavaFiles w projectPath
      in if length javaFiles = 0 then Inr CodeQualityChecker_no_java_files_message
         else (case read_files w javaFiles of
                 Inl error \<Rightarrow> Inl error
               | Inr contents \<Rightarrow> Inr (projectReport contents includeMetrics)))"

text \<open>\<open>if (filePath)\<close> holds for a path that is present and not empty; \<open>includeMetrics\<close> is
  \<open>true\<close> when absent.\<close>

definition CodeQualityChecker_try ::
    "world \<Rightarrow> file_system \<Rightarrow> (string \<Rightarrow> string \<Rightarrow> nat \<Rightarrow> bool \<Rightarrow> string) \<Rightarrow>
     ((string \<times> string) list \<Rightarrow> bool \<Rightarrow> string) \<Rightarrow> quality_args \<Rightarrow> js_thrown + string" where
  "CodeQualityChecker_try w fs fileReport projectReport a =
     (let includeMetrics = (case qa_includeMetrics a of None \<Rightarrow> True | Some b \<Rightarrow> b)
      in case qa_filePath a of
           None \<Rightarrow> CodeQualityChecker_analyzeProject w projectReport (qa_projectPath a) includeMetrics
         | Some filePath \<Rightarrow>
             if filePath \<noteq> []
             then analyzeSingleFile w fs fileReport filePath includeMetrics
             else CodeQualityChecker_analyzeProject w projectReport (qa_projectPath a) includeMetrics)"

definition CodeQualityChecker_execute ::
    "world \<Rightarrow> file_system \<Rightarrow> (string \<Rightarrow> string \<Rightarrow> nat \<Rightarrow> bool \<Rightarrow> string) \<Rightarrow>
     ((string \<times> string) list \<Rightarrow> bool \<Rightarrow> string) \<Rightarrow> quality_args js_arguments \<Rightarrow>
     js_thrown + string" where
  "CodeQualityChecker_execute w fs fileReport projectReport args =
     (case destructure args of
        Inl error \<Rightarrow> Inl error
      | Inr a \<Rightarrow>
          (case CodeQualityChecker_try w fs fileReport projectReport a of
             Inl error \<Rightarrow> Inr (''Error checking code quality: '' @ error_text error)
           | Inr result \<Rightarrow> Inr result))"

subsection \<open>DocumentationGenerator\<close>

record documentation_args =
  doc_projectPath :: string
  doc_outputPath :: "string option"
  doc_documentationType :: "string option"
  doc_includePrivate :: "bool option"

definition DocumentationGenerator_findJavaFiles :: "world \<Rightarrow> string \<Rightarrow> string list" where
  "DocumentationGenerator_findJavaFiles w projectPath =
     scanDirectory DocumentationGenerator_shouldSkipDirectory (path_join w) projectPath
       (readdirSync w projectPath)"

text \<open>\<open>saveDocumentation\<close> makes the output directory when it does not exist (through
  \<open>require('fs').mkdirSync\<close>; what this throws, also where \<open>require\<close> is not defined, is the
  outcome of \<open>mkdirSync\<close> here), and writes the file. It returns nothing (\<open>None\<close>) or throws.\<close>

definition saveDocumentation ::
    "world \<Rightarrow> file_system \<Rightarrow> string \<Rightarrow> string \<Rightarrow> string \<Rightarrow> js_thrown option" where
  "saveDocumentation w fs outputDir filename content =
     (case (if \<not> existsSync fs outputDir then mkdirSync fs outputDir else None) of
        Some error \<Rightarrow> Some error
      | None \<Rightarrow> writeFileSync fs (path_join w outputDir filename) content)"

text \<open>
  The \<open>try\<close> block. \<open>outputPath || join(projectPath, 'docs')\<close> is the output path when it is
  present and not empty; \<open>documentationType\<close> is \<open>all\<close> and \<open>includePrivate\<close> is \<open>false\<close> when
  absent. The three documents are generated and saved in turn, each under its condition.
  \<open>generateAPIDocumentation\<close> and \<open>generateJavadocSuggestions\<close> are the parameters \<open>apiDoc\<close> and
  \<open>javadocSuggestions\<close>; the text that is returned at the end is the parameter \<open>summary\<close>, of
  the project path, the output directory, the number of files and the type.
\<close>

definition DocumentationGenerator_try ::
    "world \<Rightarrow> file_system \<Rightarrow> (dg_package analysis \<Rightarrow> bool \<Rightarrow> string) \<Rightarrow>
     (dg_package analysis \<Rightarrow> string) \<Rightarrow> (string \<Rightarrow> string \<Rightarrow> nat \<Rightarrow> string \<Rightarrow> string) \<Rightarrow>
     documentation_args \<Rightarrow> js_thrown + string" where
  "DocumentationGenerator_try w fs apiDoc javadocSuggestions summary a =
     (let projectPath = doc_projectPath a;
          documentationType = (case doc_documentationType a of None \<Rightarrow> ''all'' | Some t \<Rightarrow> t);
          includePrivate = (case doc_includePrivate a of None \<Rightarrow> False | Some b \<Rightarrow> b);
          javaFiles = DocumentationGenerator_findJavaFiles w projectPath
      in if length javaFiles = 0 then Inr no_java_files_message
         else (let outputDir = (case doc_outputPath a of
                                  None \<Rightarrow> path_join w projectPath ''docs''
                                | Some p \<Rightarrow> if p \<noteq> [] then p else path_join w projectPath ''docs'')
               in case DocumentationGenerator_analyzeProject w javaFiles of
                    Inl error \<Rightarrow> Inl error
                  | Inr analysis \<Rightarrow>
                      (case (if documentationType = ''all'' \<or> documentationType = ''overview''
                             then saveDocumentation w fs outputDir ''project-overview.md''
                                    (generateProjectOverview analysis)
                             else None) of
                         Some error \<Rightarrow> Inl error
                       | None \<Rightarrow>
                           (case (if documentationType = ''all'' \<or> documentationType = ''api''
                                  then saveDocumentation w fs outputDir ''api-documentation.md''
                                         (apiDoc analysis includePrivate)
                                  else None) of
                              Some error \<Rightarrow> Inl error
                            | None \<Rightarrow>
                                (case (if documentationType = ''all'' \<or> documentationType = ''javadoc''
                                       then saveDocumentation w fs outputDir ''javadoc-suggestions.md''
                                              (javadocSuggestions analysis)
                                       else None) of
                                   Some error \<Rightarrow> Inl error
                                 | None \<Rightarrow>
                                     Inr (summary projectPath outputDir (length javaFiles)
                                            documentationType))))))"

definition DocumentationGenerator_execute ::
    "world \<Rightarrow> file_system \<Rightarrow> (dg_package analysis \<Rightarrow> bool \<Rightarrow> string) \<Rightarrow>
     (dg_package analysis \<Rightarrow> string) \<Rightarrow> (string \<Rightarrow> string \<Rightarrow> nat \<Rightarrow> string \<Rightarrow> string) \<Rightarrow>
     documentation_args js_arguments \<Rightarrow> js_thrown + string" where
  "DocumentationGenerator_execute w fs apiDoc javadocSuggestions summary args =
     (case destructure args of
        Inl error \<Rightarrow> Inl error
      | Inr a \<Rightarrow>
          (case DocumentationGenerator_try w fs apiDoc javadocSuggestions summary a of
             Inl error \<Rightarrow> Inr (''Error generating documentation: '' @ error_text error)
           | Inr result \<Rightarrow> Inr result))"

subsection \<open>ProjectStructureAnalyzer\<close>

record structure_args =
  sa_projectPath :: string
  sa_includeArchitecture :: "bool option"
  sa_includeMetrics :: "bool option"

definition path_does_not_exist_message :: "string \<Rightarrow> string" where
  "path_does_not_exist_message projectPath =
     cross_mark @ '' Project path does not exist: '' @ projectPath"

definition ProjectStructureAnalyzer_findJavaFiles :: "world \<Rightarrow> string \<Rightarrow> string list" where
  "ProjectStructureAnalyzer_findJavaFiles w projectPath =
     scanDirectory ProjectStructureAnalyzer_shouldSkipDirectory (path_join w) projectPath
       (readdirSync w projectPath)"

text \<open>
  The \<open>try\<close> block. Both flags are \<open>true\<close> when absent. The text is built from the analysis
  (\<open>report\<close>: the directory tree, which is read once more and left out where it cannot be
  read, the package analysis, and under the flags the architecture analysis and the
  metrics, then the recommendations).
\<close>

definition ProjectStructureAnalyzer_try ::
    "world \<Rightarrow> file_system \<Rightarrow> (psa_package analysis \<Rightarrow> string \<Rightarrow> nat \<Rightarrow> bool \<Rightarrow> bool \<Rightarrow> string) \<Rightarrow>
     structure_args \<Rightarrow> js_thrown + string" where
  "ProjectStructureAnalyzer_try w fs report a =
     (let projectPath = sa_projectPath a;
          includeArchitecture = (case sa_includeArchitecture a of None \<Rightarrow> True | Some b \<Rightarrow> b);
          includeMetrics = (case sa_includeMetrics a of None \<Rightarrow> True | Some b \<Rightarrow> b)
      in if \<not> existsSync fs projectPath then Inr (path_does_not_exist_message projectPath)
         else (let javaFiles = ProjectStructureAnalyzer_findJavaFiles w projectPath
               in if length javaFiles = 0 then Inr no_java_files_message
                  else (case ProjectStructureAnalyzer_analyzeProjectStructure w javaFiles of
                          Inl error \<Rightarrow> Inl error
                        | Inr analysis \<Rightarrow>
                            Inr (report analysis projectPath (length javaFiles)
                                   includeArchitecture includeMetrics))))"

definition ProjectStructureAnalyzer_execute ::
    "world \<Rightarrow> file_system \<Rightarrow> (psa_package analysis \<Rightarrow> string \<Rightarrow> nat \<Rightarrow> bool \<Rightarrow> bool \<Rightarrow> string) \<Rightarrow>
     structure_args js_arguments \<Rightarrow> js_thrown + string" where
  "ProjectStructureAnalyzer_execute w fs report args =
     (case destructure args of
        Inl error \<Rightarrow> Inl error
      | Inr a \<Rightarrow>
          (case ProjectStructureAnalyzer_try w fs report a of
             Inl error \<Rightarrow> Inr (''Error analyzing project structure: '' @ error_text error)
           | Inr result \<Rightarrow> Inr result))"

subsection \<open>The dispatcher\<close>

text \<open>
  The handler of a tool call in \<open>JavaProjectAssistantMCPServer\<close> awaits \<open>tool.execute(args)\<close>
  inside a \<open>try\<close> of its own. A text that \<open>execute\<close> returns is the content of the answer; a
  call that is rejected is answered with \<open>isError\<close> and a text that names the tool.
\<close>

record tool_answer =
  answer_text :: string
  answer_isError :: bool

definition call_tool :: "string \<Rightarrow> js_thrown + string \<Rightarrow> tool_answer" where
  "call_tool name outcome =
     (case outcome of
        Inr result \<Rightarrow> \<lparr>answer_text = result, answer_isError = False\<rparr>
      | Inl error \<Rightarrow>
          \<lparr>answer_text = ''Error executing tool '' @ name @ '': '' @ error_text error,
           answer_isError = True\<rparr>)"

section \<open>Notions the properties are stated with\<close>

text \<open>A line the parser of \<open>DocumentationGenerator\<close> recognises as a declaration: a type
  line, a method line whose pattern matches, or a field line whose pattern matches.\<close>

definition recognized_declaration :: "string \<Rightarrow> bool" where
  "recognized_declaration line =
     (is_type_line line \<or>
      (is_method_line line \<and> extractMethod line [] \<noteq> None) \<or>
      (is_field_line line \<and> extractField line [] \<noteq> None))"

text \<open>The identifier that a type line assigns to the class name, if its pattern
  matches.\<close>

definition declared_name :: "string \<Rightarrow> string option" where
  "declared_name line =
     (if str_includes line ''interface '' then match_keyword_ident ''interface'' line
      else if str_includes line ''enum '' then match_keyword_ident ''enum'' line
      else match_keyword_ident ''class'' line)"

text \<open>An annotation with a cron expression, a line of code in which \<open>*/\<close> occurs.\<close>

definition scheduled_annotation :: string where
  "scheduled_annotation =
     ''@Scheduled(cron = '' @ [double_quote] @ ''0 */5 * * * *'' @ [double_quote] @ '')''"

text \<open>A list that has grown at its end, by elements that all satisfy \<open>P\<close>.\<close>

definition appended_with :: "('a \<Rightarrow> bool) \<Rightarrow> 'a list \<Rightarrow> 'a list \<Rightarrow> bool" where
  "appended_with P old new = (take (length old) new = old \<and> list_all P (drop (length old) new))"

text \<open>A world for examples: every directory lists as \<open>listing\<close>, every file reads as
  \<open>outcome\<close>, and a path is joined to a name with a slash.\<close>

definition slash_join :: "string \<Rightarrow> string \<Rightarrow> string" where
  "slash_join dir name = dir @ ''/'' @ name"

definition world_of :: "dirent list option \<Rightarrow> (js_thrown + string) \<Rightarrow> world" where
  "world_of listing outcome =
     \<lparr>readdirSync = (\<lambda>path. listing), readFileSync = (\<lambda>path. outcome), path_join = slash_join\<rparr>"

text \<open>A file system for examples: every path exists, every file is empty, and making a
  directory and writing a file succeed.\<close>

definition example_file_system :: file_system where
  "example_file_system =
     \<lparr>existsSync = (\<lambda>path. True), statSync_size = (\<lambda>path. Inr 0),
      mkdirSync = (\<lambda>path. None), writeFileSync = (\<lambda>path content. None)\<rparr>"

text \<open>A project with a directory \<open>service\<close> and a file \<open>Service.java\<close> beside it.\<close>

definition example_listing :: "dirent list" where
  "example_listing =
     [Directory ''src'' (Some [Directory ''service'' (Some [File ''Helper.java'']), File ''Service.java''])]"


text \<open>The members of the aggregate under a key (none when there is no such aggregate).\<close>

definition dg_members :: "string \<Rightarrow> dg_package analysis \<Rightarrow> source_record list" where
  "dg_members k m =
     (case map_of (an_packages m) k of
        None \<Rightarrow> []
      | Some p \<Rightarrow> dgp_classes p @ dgp_interfaces p @ dgp_enums p)"

definition psa_members :: "string \<Rightarrow> psa_package analysis \<Rightarrow> source_record list" where
  "psa_members k m =
     (case map_of (an_packages m) k of
        None \<Rightarrow> []
      | Some p \<Rightarrow> pp_classes p @ pp_interfaces p @ pp_enums p)"

text \<open>What the proofs about the aggregators maintain: no two aggregates under one key
  (and, in \<open>DocumentationGenerator\<close>, members in the \<open>classes\<close> list only).\<close>

definition dg_ok :: "(string \<times> dg_package) list \<Rightarrow> bool" where
  "dg_ok pkgs =
     (distinct (map fst pkgs) \<and> list_all (\<lambda>(k, p). dgp_interfaces p = [] \<and> dgp_enums p = []) pkgs)"

text \<open>Two source files for examples: a class in the package \<open>p\<close>, and an interface
  without a package.\<close>

definition example_sources :: world where
  "example_sources =
     \<lparr>readdirSync = (\<lambda>path. None),
      readFileSync = (\<lambda>path.
        if path = ''/p/A.java'' then Inr ''package p;\<newline>public class A {}''
        else if path = ''/p/B.java'' then Inr ''public interface B {}''
        else Inl (Error ''ENOENT'')),
      path_join = slash_join\<rparr>"

section \<open>Properties of the dependency flags\<close>

text \<open>
  C7. For every Maven dependency (groupId, artifactId, version) the flags are assigned
  exactly as follows: "uses property reference" if and only if the version starts with
  \<open>${\<close>; "uses dynamic version" if and only if the version is \<open>LATEST\<close> or \<open>RELEASE\<close>;
  "uses snapshot version" if and only if the group is \<open>org.springframework\<close> and the version
  contains \<open>SNAPSHOT\<close>. The flags are independent, so several may apply to one dependency
  (an \<open>org.springframework\<close> dependency with version \<open>${rev}-SNAPSHOT\<close> gets two), and
  \<open>org.springframework:core:5.0.0-SNAPSHOT\<close> is flagged "uses snapshot version" and nothing
  else.
\<close>

theorem C7_dependency_issue_flags:
  "((''uses property reference'' \<in> set (checkDependencyIssues g a v props)) =
      startsWith v ''${'') \<and>
   ((''uses dynamic version'' \<in> set (checkDependencyIssues g a v props)) =
      (v = ''LATEST'' \<or> v = ''RELEASE'')) \<and>
   ((''uses snapshot version'' \<in> set (checkDependencyIssues g a v props)) =
      (g = ''org.springframework'' \<and> str_includes v ''SNAPSHOT'')) \<and>
   set (checkDependencyIssues g a v props) \<subseteq>
      {''uses property reference'', ''uses dynamic version'', ''uses snapshot version''} \<and>
   distinct (checkDependencyIssues g a v props) \<and>
   checkDependencyIssues ''org.springframework'' ''core'' ''5.0.0-SNAPSHOT'' props =
      [''uses snapshot version''] \<and>
   issues_suffix (checkDependencyIssues ''org.springframework'' ''core'' ''5.0.0-SNAPSHOT'' props) =
      '' '' @ warning_sign @ '' uses snapshot version'' \<and>
   checkDependencyIssues ''org.springframework'' ''core'' ''${rev}-SNAPSHOT'' props =
      [''uses property reference'', ''uses snapshot version'']"
  by (auto simp add: checkDependencyIssues_def startsWith_def issues_suffix_def Let_def)


section \<open>Properties of the file walk\<close>




section \<open>Properties of the code smells\<close>

lemma long_lines_from:
  "map smell_line (filter (\<lambda>s. smell_type s = ''Long Line'') (detectCodeSmells_from i ls fp)) =
   map fst (filter (\<lambda>(n, l). 120 < length (trim l)) (enumerate (Suc i) ls))"
  by (induction ls arbitrary: i) (simp_all add: Let_def)

text \<open>
  C9 (as stated: a line of more than 120 characters gets a Long Line smell). A line of 130
  characters, 20 spaces of indentation and 110 characters of code, gets none: the length
  that is compared is the one of the trimmed line.
\<close>

theorem C9_indented_line_not_long:
  "120 < length (replicate 20 (CHR '' '') @ replicate 110 (CHR ''x'')) \<and>
   filter (\<lambda>s. smell_type s = ''Long Line'')
     (detectCodeSmells [replicate 20 (CHR '' '') @ replicate 110 (CHR ''x'')] ''A.java'') = []"
  by code_simp

text \<open>
  C9, amended. For every file, the Long Line smells are, in order, one for each line whose
  length after trimming the white space at both ends is greater than 120, at the 1-based
  number of that line; so a file of one line of 130 characters without white space around
  them yields exactly one smell, Long Line at line 1.
\<close>

theorem C9_long_line_smells:
  "map smell_line (filter (\<lambda>s. smell_type s = ''Long Line'') (detectCodeSmells ls fp)) =
     map fst (filter (\<lambda>(n, l). 120 < length (trim l)) (enumerate 1 ls)) \<and>
   detectCodeSmells [replicate 130 (CHR ''x'')] fp =
     [\<lparr>smell_type = ''Long Line'', smell_description = ''Line too long (130 characters)'',
       smell_line = 1, smell_file = fp\<rparr>]"
proof -
  have "detectCodeSmells [replicate 130 (CHR ''x'')] fp =
     [\<lparr>smell_type = ''Long Line'', smell_description = ''Line too long (130 characters)'',
       smell_line = 1, smell_file = fp\<rparr>]"
    by code_simp
  then show ?thesis
    using long_lines_from [of 0 ls fp] by (simp add: detectCodeSmells_def)
qed

section \<open>Properties of the test generator\<close>

lemma find_first:
  "xs = pre @ x # post \<Longrightarrow> \<forall>p \<in> set pre. \<not> P p \<Longrightarrow> P x \<Longrightarrow> find P xs = Some x"
  by (induction pre arbitrary: xs) auto

lemma try_class_found:
  assumes files: "TestGenerator_findJavaFiles w projectPath = pre @ target # post"
    and cn: "cn \<noteq> []"
    and pre: "\<forall>p \<in> set pre. \<not> str_includes (toLowerCase p) (toLowerCase cn)"
    and target: "str_includes (toLowerCase target) (toLowerCase cn)"
  shows "TestGenerator_try w report allClasses projectPath (Some cn) fw =
         generateTestForClass w report target (case fw of None \<Rightarrow> ''junit5'' | Some f \<Rightarrow> f)"
proof -
  have "find (\<lambda>file. str_includes (toLowerCase file) (toLowerCase cn)) (pre @ target # post) =
        Some target"
    using find_first [OF refl pre target] .
  moreover have "target \<noteq> []"
    using target cn by (auto simp add: toLowerCase_def)
  ultimately show ?thesis
    using files cn by (simp add: TestGenerator_try_def Let_def)
qed

lemma try_class_not_found:
  assumes files: "TestGenerator_findJavaFiles w projectPath \<noteq> []"
    and cn: "cn \<noteq> []"
    and none: "\<forall>p \<in> set (TestGenerator_findJavaFiles w projectPath).
                 \<not> str_includes (toLowerCase p) (toLowerCase cn)"
  shows "TestGenerator_try w report allClasses projectPath (Some cn) fw =
         ([], Inr (class_not_found_message cn))"
proof -
  have "find (\<lambda>file. str_includes (toLowerCase file) (toLowerCase cn))
          (TestGenerator_findJavaFiles w projectPath) = None"
    using none by (simp add: find_None_iff)
  then show ?thesis
    using files cn by (simp add: TestGenerator_try_def Let_def)
qed

lemma reads_of_generateTestForClass:
  "fst (generateTestForClass w report filePath fw) = [filePath]"
  by (simp add: generateTestForClass_def split: sum.splits)

lemma reads_of_execute:
  "fst (TestGenerator_execute w report allClasses
     (Object \<lparr>ta_projectPath = projectPath, ta_className = className, ta_testFramework = fw\<rparr>)) =
   fst (TestGenerator_try w report allClasses projectPath className fw)"
  by (simp add: TestGenerator_execute_def destructure_def split: prod.splits sum.splits)

text \<open>
  C10 (as stated: with a class name, the first file whose path contains it is the target,
  and when no path contains it the tool returns the class-not-found message). In a
  project without Java files no path contains the name \<open>Order\<close>, and the tool returns the
  no-Java-files message instead. With the empty class name, which every path contains,
  the tool reads no first file but takes the branch for all classes.
\<close>

theorem C10_no_files_message_first:
  "TestGenerator_findJavaFiles (world_of (Some []) (Inr [])) ''/p'' = [] \<and>
   TestGenerator_execute (world_of (Some []) (Inr [])) (\<lambda>c p f. jc_className c)
     (\<lambda>files f. ([], Inr []))
     (Object \<lparr>ta_projectPath = ''/p'', ta_className = Some ''Order'', ta_testFramework = None\<rparr>) = ([], Inr no_java_files_message) \<and>
   no_java_files_message \<noteq> class_not_found_message ''Order'' \<and>
   TestGenerator_execute (world_of (Some example_listing) (Inr [])) (\<lambda>c p f. jc_className c)
     (\<lambda>files f. ([], Inr ''all classes''))
     (Object \<lparr>ta_projectPath = ''/p'', ta_className = Some [], ta_testFramework = None\<rparr>) = ([], Inr ''all classes'')"
proof -
  have files: "TestGenerator_findJavaFiles (world_of (Some example_listing) (Inr [])) ''/p'' =
      [''/p/src/service/Helper.java'', ''/p/src/Service.java'']"
    by code_simp
  have "TestGenerator_execute (world_of (Some example_listing) (Inr [])) (\<lambda>c p f. jc_className c)
     (\<lambda>files f. ([], Inr ''all classes''))
     (Object \<lparr>ta_projectPath = ''/p'', ta_className = Some [], ta_testFramework = None\<rparr>) = ([], Inr ''all classes'')"
    by (simp add: TestGenerator_execute_def destructure_def TestGenerator_try_def files)
  then show ?thesis
    by (simp add: TestGenerator_execute_def destructure_def TestGenerator_try_def TestGenerator_findJavaFiles_def
        world_of_def no_java_files_message_def class_not_found_message_def)
qed

text \<open>
  C10, amended. When \<open>generate_tests\<close> is called with a class name that is not empty and
  the walk finds at least one Java file: the target is the first file, in the order of
  the walk, whose full path contains the class name when both are compared in lower case
  (the match is on the path, so a directory name can select a file), and that file is the
  only one read; if no path contains the name, the tool returns the class-not-found
  message and reads no file.
\<close>

theorem C10_class_name_matches_path:
  assumes "cn \<noteq> []" and "TestGenerator_findJavaFiles w projectPath \<noteq> []"
  shows "(TestGenerator_findJavaFiles w projectPath = pre @ target # post \<and>
          (\<forall>p \<in> set pre. \<not> str_includes (toLowerCase p) (toLowerCase cn)) \<and>
          str_includes (toLowerCase target) (toLowerCase cn) \<longrightarrow>
            TestGenerator_try w report allClasses projectPath (Some cn) fw =
              generateTestForClass w report target (case fw of None \<Rightarrow> ''junit5'' | Some f \<Rightarrow> f) \<and>
            fst (TestGenerator_execute w report allClasses
              (Object \<lparr>ta_projectPath = projectPath, ta_className = Some cn, ta_testFramework = fw\<rparr>)) = [target]) \<and>
         ((\<forall>p \<in> set (TestGenerator_findJavaFiles w projectPath).
             \<not> str_includes (toLowerCase p) (toLowerCase cn)) \<longrightarrow>
            TestGenerator_execute w report allClasses
              (Object \<lparr>ta_projectPath = projectPath, ta_className = Some cn, ta_testFramework = fw\<rparr>) =
              ([], Inr (class_not_found_message cn)))"
proof (intro conjI impI)
  assume found: "TestGenerator_findJavaFiles w projectPath = pre @ target # post \<and>
          (\<forall>p \<in> set pre. \<not> str_includes (toLowerCase p) (toLowerCase cn)) \<and>
          str_includes (toLowerCase target) (toLowerCase cn)"
  then show try_eq: "TestGenerator_try w report allClasses projectPath (Some cn) fw =
      generateTestForClass w report target (case fw of None \<Rightarrow> ''junit5'' | Some f \<Rightarrow> f)"
    using try_class_found assms(1) by blast
  show "fst (TestGenerator_execute w report allClasses
              (Object \<lparr>ta_projectPath = projectPath, ta_className = Some cn, ta_testFramework = fw\<rparr>)) = [target]"
    by (simp add: reads_of_execute try_eq reads_of_generateTestForClass)
next
  assume "\<forall>p \<in> set (TestGenerator_findJavaFiles w projectPath).
             \<not> str_includes (toLowerCase p) (toLowerCase cn)"
  then have "TestGenerator_try w report allClasses projectPath (Some cn) fw =
         ([], Inr (class_not_found_message cn))"
    using try_class_not_found assms by blast
  then show "TestGenerator_execute w report allClasses
              (Object \<lparr>ta_projectPath = projectPath, ta_className = Some cn, ta_testFramework = fw\<rparr>) =
              ([], Inr (class_not_found_message cn))"
    by (simp add: TestGenerator_execute_def destructure_def)
qed

text \<open>A project with a directory \<open>service\<close>: the class name \<open>Service\<close> selects the file
  \<open>Helper.java\<close> in that directory, which the walk reaches before \<open>Service.java\<close>; the
  class name \<open>Order\<close> is in no path.\<close>

theorem C10_class_name_matches_path_witness:
  "TestGenerator_findJavaFiles (world_of (Some example_listing) (Inr ''public class Helper {}'')) ''/p'' =
     [''/p/src/service/Helper.java'', ''/p/src/Service.java''] \<and>
   TestGenerator_try (world_of (Some example_listing) (Inr ''public class Helper {}''))
     (\<lambda>c p f. jc_className c) (\<lambda>files f. ([], Inr [])) ''/p'' (Some ''Service'') None =
     generateTestForClass (world_of (Some example_listing) (Inr ''public class Helper {}''))
       (\<lambda>c p f. jc_className c) ''/p/src/service/Helper.java'' ''junit5'' \<and>
   fst (TestGenerator_execute (world_of (Some example_listing) (Inr ''public class Helper {}''))
     (\<lambda>c p f. jc_className c) (\<lambda>files f. ([], Inr []))
     (Object \<lparr>ta_projectPath = ''/p'', ta_className = Some ''Service'', ta_testFramework = None\<rparr>)) =
     [''/p/src/service/Helper.java''] \<and>
   TestGenerator_execute (world_of (Some example_listing) (Inr ''public class Helper {}''))
     (\<lambda>c p f. jc_className c) (\<lambda>files f. ([], Inr []))
     (Object \<lparr>ta_projectPath = ''/p'', ta_className = Some ''Order'', ta_testFramework = None\<rparr>) =
     ([], Inr (class_not_found_message ''Order''))"
proof -
  let ?w = "world_of (Some example_listing) (Inr ''public class Helper {}'')"
  have files: "TestGenerator_findJavaFiles ?w ''/p'' =
      [] @ ''/p/src/service/Helper.java'' # [''/p/src/Service.java'']"
    by code_simp
  have nonempty: "TestGenerator_findJavaFiles ?w ''/p'' \<noteq> []"
    using files by simp
  have service: "''Service'' \<noteq> []" and order: "''Order'' \<noteq> []"
    by simp_all
  have hit: "str_includes (toLowerCase ''/p/src/service/Helper.java'') (toLowerCase ''Service'')"
    by code_simp
  have miss: "\<forall>p \<in> set (TestGenerator_findJavaFiles ?w ''/p'').
      \<not> str_includes (toLowerCase p) (toLowerCase ''Order'')"
    unfolding files by code_simp
  show ?thesis
    using C10_class_name_matches_path [OF service nonempty,
        of "[]" "''/p/src/service/Helper.java''" "[''/p/src/Service.java'']"
           "\<lambda>c p f. jc_className c" "\<lambda>files f. ([], Inr [])" None]
      C10_class_name_matches_path [OF order nonempty,
        of "[]" "''/p/src/service/Helper.java''" "[''/p/src/Service.java'']"
           "\<lambda>c p f. jc_className c" "\<lambda>files f. ([], Inr [])" None]
      files hit miss
    by simp
qed

section \<open>Properties of the aggregators\<close>

lemma map_of_obj_set: "map_of (obj_set k v kvs) = (map_of kvs)(k \<mapsto> v)"
  by (induction kvs) (auto simp add: fun_eq_iff)

lemma keys_obj_set: "fst ` set (obj_set k v kvs) = insert k (fst ` set kvs)"
  by (simp add: dom_map_of_conv_image_fst [symmetric] map_of_obj_set)

lemma distinct_obj_set: "distinct (map fst kvs) \<Longrightarrow> distinct (map fst (obj_set k v kvs))"
  by (induction kvs) (auto simp add: keys_obj_set)

lemma set_obj_set: "set (obj_set k v kvs) \<subseteq> insert (k, v) (set kvs)"
  by (induction kvs) (auto split: if_splits)

lemma keys_filter_one:
  "distinct (map fst kvs) \<Longrightarrow> k0 \<in> fst ` set kvs \<Longrightarrow>
   map fst (filter (\<lambda>(k, p). k = k0) kvs) = [k0]"
proof (induction kvs)
  case Nil
  then show ?case by simp
next
  case (Cons kv kvs)
  obtain k p where kv: "kv = (k, p)" by (cases kv)
  show ?case
  proof (cases "k = k0")
    case True
    then have "k0 \<notin> fst ` set kvs" using Cons.prems(1) kv by auto
    then have "filter (\<lambda>(k, p). k = k0) kvs = []"
      by (auto simp add: filter_empty_conv image_iff)
    then show ?thesis using True kv by simp
  next
    case False
    then show ?thesis using Cons kv by auto
  qed
qed

text \<open>When every aggregate holds exactly the records of its own key, a record is held by
  the aggregate of its package and by no other.\<close>

lemma holding_one:
  assumes dist: "distinct (map fst pkgs)"
    and pred: "\<And>k p. (k, p) \<in> set pkgs \<Longrightarrow>
        (r \<in> set (members p)) = (k = sr_package r \<and> r \<in> set rs \<and> sr_package r \<noteq> [])"
    and present: "r \<in> set rs \<and> sr_package r \<noteq> [] \<Longrightarrow> sr_package r \<in> fst ` set pkgs"
  shows "map fst (filter (\<lambda>(k, p). r \<in> set (members p)) pkgs) =
         (if r \<in> set rs \<and> sr_package r \<noteq> [] then [sr_package r] else [])"
proof -
  have filt: "filter (\<lambda>(k, p). r \<in> set (members p)) pkgs =
      filter (\<lambda>(k, p). k = sr_package r \<and> r \<in> set rs \<and> sr_package r \<noteq> []) pkgs"
    by (rule filter_cong) (use pred in auto)
  show ?thesis
  proof (cases "r \<in> set rs \<and> sr_package r \<noteq> []")
    case True
    then have "sr_package r \<in> fst ` set pkgs" by (rule present)
    then have "map fst (filter (\<lambda>(k, p). k = sr_package r) pkgs) = [sr_package r]"
      by (rule keys_filter_one [OF dist])
    moreover have "filter (\<lambda>(k, p). k = sr_package r \<and> r \<in> set rs \<and> sr_package r \<noteq> []) pkgs =
        filter (\<lambda>(k, p). k = sr_package r) pkgs"
      using True by simp
    ultimately show ?thesis using True filt by simp
  next
    case False
    have "filter (\<lambda>(k, p). k = sr_package r \<and> r \<in> set rs \<and> sr_package r \<noteq> []) pkgs = []"
      by (rule filter_False) (use False in auto)
    then have "map fst (filter (\<lambda>(k, p). r \<in> set (members p)) pkgs) = []"
      unfolding filt by simp
    then show ?thesis by (simp only: False if_False)
  qed
qed

lemma push_flat_packages: "an_packages (push_flat a st) = an_packages st"
  by (simp add: push_flat_def split: type_kind.splits)

lemma push_flat_lists:
  "an_classes (push_flat a st) = an_classes st @ (if sr_type a = Class then [a] else []) \<and>
   an_interfaces (push_flat a st) = an_interfaces st @ (if sr_type a = Interface then [a] else []) \<and>
   an_enums (push_flat a st) = an_enums st @ (if sr_type a = Enum then [a] else []) \<and>
   an_totalFiles (push_flat a st) = an_totalFiles st"
  by (simp add: push_flat_def split: type_kind.splits)

subsection \<open>DocumentationGenerator\<close>

lemma dg_ok_obj_set:
  "dg_ok pkgs \<Longrightarrow> dgp_interfaces p = [] \<Longrightarrow> dgp_enums p = [] \<Longrightarrow> dg_ok (obj_set k p pkgs)"
  using set_obj_set [of k p pkgs]
  by (auto simp add: dg_ok_def distinct_obj_set list_all_iff)

lemma dg_ok_lookup:
  "dg_ok pkgs \<Longrightarrow> map_of pkgs k = Some p \<Longrightarrow> dgp_interfaces p = [] \<and> dgp_enums p = []"
  by (auto simp add: dg_ok_def list_all_iff dest: map_of_SomeD)

lemma dg_add_step:
  assumes add: "DocumentationGenerator_add a st = Inr st'" and ok: "dg_ok (an_packages st)"
  shows "an_classes st' = an_classes st @ (if sr_type a = Class then [a] else []) \<and>
         an_interfaces st' = an_interfaces st @ (if sr_type a = Interface then [a] else []) \<and>
         an_enums st' = an_enums st @ (if sr_type a = Enum then [a] else []) \<and>
         an_totalFiles st' = an_totalFiles st \<and>
         dg_ok (an_packages st') \<and>
         (\<forall>k. set (dg_members k st') =
               set (dg_members k st) \<union> (if sr_package a = k \<and> k \<noteq> [] then {a} else {}))"
proof (cases "sr_package a = []")
  case True
  then have "st' = push_flat a st" using add by (simp add: DocumentationGenerator_add_def)
  then show ?thesis
    using True ok by (simp add: push_flat_lists push_flat_packages dg_members_def)
next
  case False
  define pkg where "pkg = (case map_of (an_packages st) (sr_package a) of
       None \<Rightarrow> \<lparr>dgp_name = sr_package a, dgp_classes = [], dgp_interfaces = [],
                 dgp_enums = [], dgp_methods = 0\<rparr>
     | Some p \<Rightarrow> p)"
  define pkg' where "pkg' = pkg\<lparr>dgp_classes := dgp_classes pkg @ [a],
       dgp_methods := dgp_methods pkg + length (sr_methods a)\<rparr>"
  have st': "st' = push_flat a (st\<lparr>an_packages := obj_set (sr_package a) pkg' (an_packages st)\<rparr>)"
    using add False
    by (simp add: DocumentationGenerator_add_def Let_def pkg_def pkg'_def split: if_splits)
  have empty: "dgp_interfaces pkg = [] \<and> dgp_enums pkg = []"
    using dg_ok_lookup [OF ok] by (simp add: pkg_def split: option.splits)
  have old: "dg_members (sr_package a) st = dgp_classes pkg"
    using empty by (simp add: dg_members_def pkg_def split: option.splits)
  have ok': "dg_ok (an_packages st')"
    using dg_ok_obj_set [OF ok, of pkg' "sr_package a"] empty
    by (simp add: st' push_flat_packages pkg'_def)
  have members: "\<forall>k. set (dg_members k st') =
      set (dg_members k st) \<union> (if sr_package a = k \<and> k \<noteq> [] then {a} else {})"
  proof
    fix k
    show "set (dg_members k st') =
      set (dg_members k st) \<union> (if sr_package a = k \<and> k \<noteq> [] then {a} else {})"
    proof (cases "k = sr_package a")
      case True
      have "dg_members k st' = dgp_classes pkg @ [a]"
        using empty True
        by (simp add: dg_members_def st' push_flat_packages map_of_obj_set pkg'_def)
      then show ?thesis using True False old by auto
    next
      case False
      then have "dg_members k st' = dg_members k st"
        by (simp add: dg_members_def st' push_flat_packages map_of_obj_set)
      then show ?thesis using False by auto
    qed
  qed
  show ?thesis
    using ok' members by (simp add: st' push_flat_lists)
qed

lemma dg_records_Cons:
  "readFileSync w f = Inr content \<Longrightarrow>
   dg_records w (f # fs) = DocumentationGenerator_analyzeJavaFile content f # dg_records w fs"
  by (simp add: dg_records_def file_content_def)

lemma dg_loop:
  assumes "DocumentationGenerator_loop w files st = Inr m" and "dg_ok (an_packages st)"
  shows "an_classes m = an_classes st @ filter (\<lambda>r. sr_type r = Class) (dg_records w files) \<and>
         an_interfaces m = an_interfaces st @ filter (\<lambda>r. sr_type r = Interface) (dg_records w files) \<and>
         an_enums m = an_enums st @ filter (\<lambda>r. sr_type r = Enum) (dg_records w files) \<and>
         an_totalFiles m = an_totalFiles st \<and>
         dg_ok (an_packages m) \<and>
         (\<forall>k. set (dg_members k m) =
               set (dg_members k st) \<union> {r \<in> set (dg_records w files). sr_package r = k \<and> k \<noteq> []})"
  using assms
proof (induction files arbitrary: st)
  case Nil
  then show ?case by (simp add: dg_records_def)
next
  case (Cons f fs)
  from Cons.prems(1) obtain content where content: "readFileSync w f = Inr content"
    by (cases "readFileSync w f") simp_all
  let ?a = "DocumentationGenerator_analyzeJavaFile content f"
  from Cons.prems(1) content obtain st' where add: "DocumentationGenerator_add ?a st = Inr st'"
    and rest: "DocumentationGenerator_loop w fs st' = Inr m"
    by (cases "DocumentationGenerator_add ?a st") simp_all
  note step = dg_add_step [OF add Cons.prems(2)]
  from step have ok': "dg_ok (an_packages st')" by blast
  note ih = Cons.IH [OF rest ok']
  have recs: "dg_records w (f # fs) = ?a # dg_records w fs"
    by (rule dg_records_Cons [OF content])
  have members: "\<forall>k. set (dg_members k m) =
      set (dg_members k st) \<union> {r \<in> set (dg_records w (f # fs)). sr_package r = k \<and> k \<noteq> []}"
  proof
    fix k
    have "set (dg_members k st') =
        set (dg_members k st) \<union> (if sr_package ?a = k \<and> k \<noteq> [] then {?a} else {})"
      using step by blast
    moreover have "set (dg_members k m) =
        set (dg_members k st') \<union> {r \<in> set (dg_records w fs). sr_package r = k \<and> k \<noteq> []}"
      using ih by blast
    ultimately show "set (dg_members k m) =
      set (dg_members k st) \<union> {r \<in> set (dg_records w (f # fs)). sr_package r = k \<and> k \<noteq> []}"
      unfolding recs by auto
  qed
  show ?case
    using step ih members unfolding recs by simp
qed

lemma dg_holding:
  assumes ok: "dg_ok (an_packages m)"
    and members: "\<forall>k. set (dg_members k m) = {r \<in> set rs. sr_package r = k \<and> k \<noteq> []}"
  shows "dg_aggregates_holding r m =
         (if r \<in> set rs \<and> sr_package r \<noteq> [] then [sr_package r] else [])"
  unfolding dg_aggregates_holding_def
proof (rule holding_one)
  show dist: "distinct (map fst (an_packages m))"
    using ok by (simp add: dg_ok_def)
  show "(r \<in> set (dgp_classes p @ dgp_interfaces p @ dgp_enums p)) =
        (k = sr_package r \<and> r \<in> set rs \<and> sr_package r \<noteq> [])"
    if "(k, p) \<in> set (an_packages m)" for k p
  proof -
    have "map_of (an_packages m) k = Some p" using dist that by simp
    then have "dg_members k m = dgp_classes p @ dgp_interfaces p @ dgp_enums p"
      by (simp add: dg_members_def)
    moreover have "set (dg_members k m) = {r \<in> set rs. sr_package r = k \<and> k \<noteq> []}"
      using members by blast
    ultimately show ?thesis by auto
  qed
  show "sr_package r \<in> fst ` set (an_packages m)" if "r \<in> set rs \<and> sr_package r \<noteq> []"
  proof -
    have "r \<in> set (dg_members (sr_package r) m)" using members that by simp
    then have "map_of (an_packages m) (sr_package r) \<noteq> None"
      by (cases "map_of (an_packages m) (sr_package r)") (simp_all add: dg_members_def)
    then show ?thesis by (simp add: map_of_eq_None_iff)
  qed
qed

lemma dg_loop_returns:
  assumes "\<forall>f \<in> set files. \<exists>content. readFileSync w f = Inr content"
    and "\<forall>r \<in> set (dg_records w files). sr_package r \<notin> set object_prototype_keys"
  shows "\<exists>m. DocumentationGenerator_loop w files st = Inr m"
  using assms
proof (induction files arbitrary: st)
  case Nil
  then show ?case by simp
next
  case (Cons f fs)
  from Cons.prems(1) obtain content where content: "readFileSync w f = Inr content"
    by auto
  let ?a = "DocumentationGenerator_analyzeJavaFile content f"
  have recs: "dg_records w (f # fs) = ?a # dg_records w fs"
    by (rule dg_records_Cons [OF content])
  have "sr_package ?a \<notin> set object_prototype_keys"
    using Cons.prems(2) unfolding recs by simp
  then have "\<exists>st'. DocumentationGenerator_add ?a st = Inr st'"
    by (simp add: DocumentationGenerator_add_def Let_def)
  then obtain st' where add: "DocumentationGenerator_add ?a st = Inr st'" ..
  have "\<exists>m. DocumentationGenerator_loop w fs st' = Inr m"
    using Cons.IH Cons.prems unfolding recs by simp
  then show ?case using content add by simp
qed

subsection \<open>ProjectStructureAnalyzer\<close>

lemma psa_add_step:
  assumes add: "ProjectStructureAnalyzer_add a st = Inr st'"
    and dist: "distinct (map fst (an_packages st))"
  shows "an_classes st' =
           an_classes st @ (if sr_type a = Class \<and> sr_package a \<noteq> [] then [a] else []) \<and>
         an_interfaces st' =
           an_interfaces st @ (if sr_type a = Interface \<and> sr_package a \<noteq> [] then [a] else []) \<and>
         an_enums st' =
           an_enums st @ (if sr_type a = Enum \<and> sr_package a \<noteq> [] then [a] else []) \<and>
         an_totalFiles st' = an_totalFiles st \<and>
         distinct (map fst (an_packages st')) \<and>
         (\<forall>k. set (psa_members k st') =
               set (psa_members k st) \<union> (if sr_package a = k \<and> k \<noteq> [] then {a} else {}))"
proof (cases "sr_package a = []")
  case True
  then have "st' = st" using add by (simp add: ProjectStructureAnalyzer_add_def)
  then show ?thesis using True dist by simp
next
  case False
  define pkg where "pkg = (case map_of (an_packages st) (sr_package a) of
       None \<Rightarrow> \<lparr>pp_name = sr_package a, pp_classes = [], pp_interfaces = [],
                 pp_enums = [], pp_totalMethods = 0, pp_totalFields = 0, pp_fileCount = 0\<rparr>
     | Some p \<Rightarrow> p)"
  define pkg1 where "pkg1 = pkg\<lparr>pp_fileCount := pp_fileCount pkg + 1,
       pp_totalMethods := pp_totalMethods pkg + length (sr_methods a),
       pp_totalFields := pp_totalFields pkg + length (sr_fields a)\<rparr>"
  define pkg2 where "pkg2 = (case sr_type a of
       Class \<Rightarrow> pkg1\<lparr>pp_classes := pp_classes pkg1 @ [a]\<rparr>
     | Interface \<Rightarrow> pkg1\<lparr>pp_interfaces := pp_interfaces pkg1 @ [a]\<rparr>
     | Enum \<Rightarrow> pkg1\<lparr>pp_enums := pp_enums pkg1 @ [a]\<rparr>)"
  have notkey: "sr_package a \<notin> set object_prototype_keys"
    using add False by (auto simp add: ProjectStructureAnalyzer_add_def split: if_splits)
  have "ProjectStructureAnalyzer_add a st =
      Inr (push_flat a (st\<lparr>an_packages := obj_set (sr_package a) pkg2 (an_packages st)\<rparr>))"
    by (simp only: ProjectStructureAnalyzer_add_def Let_def pkg_def pkg1_def pkg2_def
        False notkey if_True if_False simp_thms)
  then have st': "st' = push_flat a (st\<lparr>an_packages := obj_set (sr_package a) pkg2 (an_packages st)\<rparr>)"
    using add by simp
  have old: "psa_members (sr_package a) st = pp_classes pkg @ pp_interfaces pkg @ pp_enums pkg"
    by (simp add: psa_members_def pkg_def split: option.splits)
  have new: "set (pp_classes pkg2 @ pp_interfaces pkg2 @ pp_enums pkg2) =
      insert a (set (pp_classes pkg @ pp_interfaces pkg @ pp_enums pkg))"
    by (cases "sr_type a") (auto simp add: pkg2_def pkg1_def)
  have members: "\<forall>k. set (psa_members k st') =
      set (psa_members k st) \<union> (if sr_package a = k \<and> k \<noteq> [] then {a} else {})"
  proof
    fix k
    show "set (psa_members k st') =
      set (psa_members k st) \<union> (if sr_package a = k \<and> k \<noteq> [] then {a} else {})"
    proof (cases "k = sr_package a")
      case True
      have "psa_members k st' = pp_classes pkg2 @ pp_interfaces pkg2 @ pp_enums pkg2"
        using True by (simp add: psa_members_def st' push_flat_packages map_of_obj_set)
      then show ?thesis using True False old new by auto
    next
      case False
      then have "psa_members k st' = psa_members k st"
        by (simp add: psa_members_def st' push_flat_packages map_of_obj_set)
      then show ?thesis using False by auto
    qed
  qed
  have "distinct (map fst (an_packages st'))"
    using dist by (simp add: st' push_flat_packages distinct_obj_set)
  then show ?thesis
    using members False by (simp add: st' push_flat_lists)
qed

lemma psa_records_Cons:
  "readFileSync w f = Inr content \<Longrightarrow>
   psa_records w (f # fs) = ProjectStructureAnalyzer_analyzeJavaFile content f # psa_records w fs"
  by (simp add: psa_records_def file_content_def)

lemma psa_loop:
  assumes "ProjectStructureAnalyzer_loop w files st = Inr m"
    and "distinct (map fst (an_packages st))"
  shows "an_classes m = an_classes st @
           filter (\<lambda>r. sr_type r = Class \<and> sr_package r \<noteq> []) (psa_records w files) \<and>
         an_interfaces m = an_interfaces st @
           filter (\<lambda>r. sr_type r = Interface \<and> sr_package r \<noteq> []) (psa_records w files) \<and>
         an_enums m = an_enums st @
           filter (\<lambda>r. sr_type r = Enum \<and> sr_package r \<noteq> []) (psa_records w files) \<and>
         an_totalFiles m = an_totalFiles st \<and>
         distinct (map fst (an_packages m)) \<and>
         (\<forall>k. set (psa_members k m) =
               set (psa_members k st) \<union> {r \<in> set (psa_records w files). sr_package r = k \<and> k \<noteq> []})"
  using assms
proof (induction files arbitrary: st)
  case Nil
  then show ?case by (simp add: psa_records_def)
next
  case (Cons f fs)
  from Cons.prems(1) obtain content where content: "readFileSync w f = Inr content"
    by (cases "readFileSync w f") simp_all
  let ?a = "ProjectStructureAnalyzer_analyzeJavaFile content f"
  from Cons.prems(1) content obtain st' where add: "ProjectStructureAnalyzer_add ?a st = Inr st'"
    and rest: "ProjectStructureAnalyzer_loop w fs st' = Inr m"
    by (cases "ProjectStructureAnalyzer_add ?a st") simp_all
  note step = psa_add_step [OF add Cons.prems(2)]
  from step have dist': "distinct (map fst (an_packages st'))" by blast
  note ih = Cons.IH [OF rest dist']
  have recs: "psa_records w (f # fs) = ?a # psa_records w fs"
    by (rule psa_records_Cons [OF content])
  have members: "\<forall>k. set (psa_members k m) =
      set (psa_members k st) \<union> {r \<in> set (psa_records w (f # fs)). sr_package r = k \<and> k \<noteq> []}"
  proof
    fix k
    have "set (psa_members k st') =
        set (psa_members k st) \<union> (if sr_package ?a = k \<and> k \<noteq> [] then {?a} else {})"
      using step by blast
    moreover have "set (psa_members k m) =
        set (psa_members k st') \<union> {r \<in> set (psa_records w fs). sr_package r = k \<and> k \<noteq> []}"
      using ih by blast
    ultimately show "set (psa_members k m) =
      set (psa_members k st) \<union> {r \<in> set (psa_records w (f # fs)). sr_package r = k \<and> k \<noteq> []}"
      unfolding recs by auto
  qed
  show ?case
    using step ih members unfolding recs by simp
qed

lemma psa_holding:
  assumes dist: "distinct (map fst (an_packages m))"
    and members: "\<forall>k. set (psa_members k m) = {r \<in> set rs. sr_package r = k \<and> k \<noteq> []}"
  shows "psa_aggregates_holding r m =
         (if r \<in> set rs \<and> sr_package r \<noteq> [] then [sr_package r] else [])"
  unfolding psa_aggregates_holding_def
proof (rule holding_one)
  show "distinct (map fst (an_packages m))"
    by (rule dist)
  show "(r \<in> set (pp_classes p @ pp_interfaces p @ pp_enums p)) =
        (k = sr_package r \<and> r \<in> set rs \<and> sr_package r \<noteq> [])"
    if "(k, p) \<in> set (an_packages m)" for k p
  proof -
    have "map_of (an_packages m) k = Some p" using dist that by simp
    then have "psa_members k m = pp_classes p @ pp_interfaces p @ pp_enums p"
      by (simp add: psa_members_def)
    moreover have "set (psa_members k m) = {r \<in> set rs. sr_package r = k \<and> k \<noteq> []}"
      using members by blast
    ultimately show ?thesis by auto
  qed
  show "sr_package r \<in> fst ` set (an_packages m)" if "r \<in> set rs \<and> sr_package r \<noteq> []"
  proof -
    have "r \<in> set (psa_members (sr_package r) m)" using members that by simp
    then have "map_of (an_packages m) (sr_package r) \<noteq> None"
      by (cases "map_of (an_packages m) (sr_package r)") (simp_all add: psa_members_def)
    then show ?thesis by (simp add: map_of_eq_None_iff)
  qed
qed

lemma psa_loop_returns:
  assumes "\<forall>f \<in> set files. \<exists>content. readFileSync w f = Inr content"
    and "\<forall>r \<in> set (psa_records w files). sr_package r \<notin> set object_prototype_keys"
  shows "\<exists>m. ProjectStructureAnalyzer_loop w files st = Inr m"
  using assms
proof (induction files arbitrary: st)
  case Nil
  then show ?case by simp
next
  case (Cons f fs)
  from Cons.prems(1) obtain content where content: "readFileSync w f = Inr content"
    by auto
  let ?a = "ProjectStructureAnalyzer_analyzeJavaFile content f"
  have recs: "psa_records w (f # fs) = ?a # psa_records w fs"
    by (rule psa_records_Cons [OF content])
  have "sr_package ?a \<notin> set object_prototype_keys"
    using Cons.prems(2) unfolding recs by simp
  then have "\<exists>st'. ProjectStructureAnalyzer_add ?a st = Inr st'"
    by (simp add: ProjectStructureAnalyzer_add_def Let_def)
  then obtain st' where add: "ProjectStructureAnalyzer_add ?a st = Inr st'" ..
  have "\<exists>m. ProjectStructureAnalyzer_loop w fs st' = Inr m"
    using Cons.IH Cons.prems unfolding recs by simp
  then show ?case using content add by simp
qed

text \<open>
  C3 (as stated: in every tool a record without a package is appended to the flat list of
  its kind). In \<open>ProjectStructureAnalyzer\<close> a class without a package is in no list at all.
\<close>

theorem C3_psa_drops_package_less:
  "sr_package (ProjectStructureAnalyzer_analyzeJavaFile ''public class A {}'' ''/p/A.java'') = [] \<and>
   sr_type (ProjectStructureAnalyzer_analyzeJavaFile ''public class A {}'' ''/p/A.java'') = Class \<and>
   ProjectStructureAnalyzer_analyzeProjectStructure
     (world_of None (Inr ''public class A {}'')) [''/p/A.java''] =
     Inr \<lparr>an_packages = [], an_classes = [], an_interfaces = [], an_enums = [],
          an_totalFiles = 1\<rparr>"
  by code_simp

text \<open>
  C3, amended. When the aggregation of a list of files completes, with the records the
  files parse to:
  in \<open>DocumentationGenerator\<close> the flat lists \<open>classes\<close>, \<open>interfaces\<close> and \<open>enums\<close> hold all
  records of their kind, those without a package included;
  in \<open>ProjectStructureAnalyzer\<close> they hold the records of their kind that have a package,
  and a record without a package is in no list;
  in both tools a record without a package belongs to no aggregate, and a record with a
  package belongs to exactly one, the aggregate of its package.
  The aggregation completes when every file can be read and no package has the name of a
  property that objects inherit.
\<close>

theorem C3_aggregation:
  "(DocumentationGenerator_analyzeProject w files = Inr m \<longrightarrow>
      an_classes m = filter (\<lambda>x. sr_type x = Class) (dg_records w files) \<and>
      an_interfaces m = filter (\<lambda>x. sr_type x = Interface) (dg_records w files) \<and>
      an_enums m = filter (\<lambda>x. sr_type x = Enum) (dg_records w files) \<and>
      dg_aggregates_holding r m =
        (if r \<in> set (dg_records w files) \<and> sr_package r \<noteq> [] then [sr_package r] else [])) \<and>
   (ProjectStructureAnalyzer_analyzeProjectStructure w files = Inr m' \<longrightarrow>
      an_classes m' =
        filter (\<lambda>x. sr_type x = Class \<and> sr_package x \<noteq> []) (psa_records w files) \<and>
      an_interfaces m' =
        filter (\<lambda>x. sr_type x = Interface \<and> sr_package x \<noteq> []) (psa_records w files) \<and>
      an_enums m' =
        filter (\<lambda>x. sr_type x = Enum \<and> sr_package x \<noteq> []) (psa_records w files) \<and>
      psa_aggregates_holding r' m' =
        (if r' \<in> set (psa_records w files) \<and> sr_package r' \<noteq> [] then [sr_package r'] else [])) \<and>
   ((\<forall>f \<in> set files. \<exists>content. readFileSync w f = Inr content) \<and>
    (\<forall>x \<in> set (dg_records w files). sr_package x \<notin> set object_prototype_keys) \<longrightarrow>
      (\<exists>m. DocumentationGenerator_analyzeProject w files = Inr m)) \<and>
   ((\<forall>f \<in> set files. \<exists>content. readFileSync w f = Inr content) \<and>
    (\<forall>x \<in> set (psa_records w files). sr_package x \<notin> set object_prototype_keys) \<longrightarrow>
      (\<exists>m. ProjectStructureAnalyzer_analyzeProjectStructure w files = Inr m))"
proof (intro conjI impI)
  assume run: "DocumentationGenerator_analyzeProject w files = Inr m"
  have start: "dg_ok []" by (simp add: dg_ok_def)
  have facts: "an_classes m = filter (\<lambda>x. sr_type x = Class) (dg_records w files) \<and>
      an_interfaces m = filter (\<lambda>x. sr_type x = Interface) (dg_records w files) \<and>
      an_enums m = filter (\<lambda>x. sr_type x = Enum) (dg_records w files) \<and>
      dg_ok (an_packages m) \<and>
      (\<forall>k. set (dg_members k m) = {x \<in> set (dg_records w files). sr_package x = k \<and> k \<noteq> []})"
  proof -
    let ?st = "\<lparr>an_packages = [], an_classes = [], an_interfaces = [], an_enums = [],
        an_totalFiles = length files\<rparr> :: dg_package analysis"
    have init: "\<And>k. dg_members k ?st = []"
      by (simp add: dg_members_def)
    show ?thesis
      using dg_loop [OF run [unfolded DocumentationGenerator_analyzeProject_def]] start
      by (simp add: init)
  qed
  then show "an_classes m = filter (\<lambda>x. sr_type x = Class) (dg_records w files)"
    and "an_interfaces m = filter (\<lambda>x. sr_type x = Interface) (dg_records w files)"
    and "an_enums m = filter (\<lambda>x. sr_type x = Enum) (dg_records w files)"
    by simp_all
  show "dg_aggregates_holding r m =
        (if r \<in> set (dg_records w files) \<and> sr_package r \<noteq> [] then [sr_package r] else [])"
    using facts by (intro dg_holding) simp_all
next
  assume run: "ProjectStructureAnalyzer_analyzeProjectStructure w files = Inr m'"
  have facts: "an_classes m' =
        filter (\<lambda>x. sr_type x = Class \<and> sr_package x \<noteq> []) (psa_records w files) \<and>
      an_interfaces m' =
        filter (\<lambda>x. sr_type x = Interface \<and> sr_package x \<noteq> []) (psa_records w files) \<and>
      an_enums m' =
        filter (\<lambda>x. sr_type x = Enum \<and> sr_package x \<noteq> []) (psa_records w files) \<and>
      distinct (map fst (an_packages m')) \<and>
      (\<forall>k. set (psa_members k m') = {x \<in> set (psa_records w files). sr_package x = k \<and> k \<noteq> []})"
  proof -
    let ?st = "\<lparr>an_packages = [], an_classes = [], an_interfaces = [], an_enums = [],
        an_totalFiles = length files\<rparr> :: psa_package analysis"
    have init: "\<And>k. psa_members k ?st = []"
      by (simp add: psa_members_def)
    show ?thesis
      using psa_loop [OF run [unfolded ProjectStructureAnalyzer_analyzeProjectStructure_def]]
      by (simp add: init)
  qed
  then show "an_classes m' =
        filter (\<lambda>x. sr_type x = Class \<and> sr_package x \<noteq> []) (psa_records w files)"
    and "an_interfaces m' =
        filter (\<lambda>x. sr_type x = Interface \<and> sr_package x \<noteq> []) (psa_records w files)"
    and "an_enums m' =
        filter (\<lambda>x. sr_type x = Enum \<and> sr_package x \<noteq> []) (psa_records w files)"
    by simp_all
  show "psa_aggregates_holding r' m' =
        (if r' \<in> set (psa_records w files) \<and> sr_package r' \<noteq> [] then [sr_package r'] else [])"
    using facts by (intro psa_holding) simp_all
next
  assume "(\<forall>f \<in> set files. \<exists>content. readFileSync w f = Inr content) \<and>
    (\<forall>x \<in> set (dg_records w files). sr_package x \<notin> set object_prototype_keys)"
  then show "\<exists>m. DocumentationGenerator_analyzeProject w files = Inr m"
    unfolding DocumentationGenerator_analyzeProject_def by (intro dg_loop_returns) simp_all
next
  assume "(\<forall>f \<in> set files. \<exists>content. readFileSync w f = Inr content) \<and>
    (\<forall>x \<in> set (psa_records w files). sr_package x \<notin> set object_prototype_keys)"
  then show "\<exists>m. ProjectStructureAnalyzer_analyzeProjectStructure w files = Inr m"
    unfolding ProjectStructureAnalyzer_analyzeProjectStructure_def
    by (intro psa_loop_returns) simp_all
qed

text \<open>A project of two files, a class in the package \<open>p\<close> and an interface without a
  package.\<close>

theorem C3_aggregation_witness:
  "(\<exists>m. DocumentationGenerator_analyzeProject example_sources [''/p/A.java'', ''/p/B.java''] = Inr m \<and>
        map sr_className (an_classes m) = [''A''] \<and>
        map sr_className (an_interfaces m) = [''B''] \<and>
        an_enums m = [] \<and>
        dg_aggregates_holding
          (DocumentationGenerator_analyzeJavaFile ''package p;\<newline>public class A {}'' ''/p/A.java'') m =
          [''p''] \<and>
        dg_aggregates_holding
          (DocumentationGenerator_analyzeJavaFile ''public interface B {}'' ''/p/B.java'') m = []) \<and>
   (\<exists>m. ProjectStructureAnalyzer_analyzeProjectStructure example_sources
          [''/p/A.java'', ''/p/B.java''] = Inr m \<and>
        map sr_className (an_classes m) = [''A''] \<and>
        an_interfaces m = [] \<and>
        an_enums m = [] \<and>
        psa_aggregates_holding
          (ProjectStructureAnalyzer_analyzeJavaFile ''package p;\<newline>public class A {}'' ''/p/A.java'') m =
          [''p''] \<and>
        psa_aggregates_holding
          (ProjectStructureAnalyzer_analyzeJavaFile ''public interface B {}'' ''/p/B.java'') m = [])"
proof -
  let ?files = "[''/p/A.java'', ''/p/B.java'']"
  let ?A = "DocumentationGenerator_analyzeJavaFile ''package p;\<newline>public class A {}'' ''/p/A.java''"
  let ?B = "DocumentationGenerator_analyzeJavaFile ''public interface B {}'' ''/p/B.java''"
  let ?A' = "ProjectStructureAnalyzer_analyzeJavaFile ''package p;\<newline>public class A {}'' ''/p/A.java''"
  let ?B' = "ProjectStructureAnalyzer_analyzeJavaFile ''public interface B {}'' ''/p/B.java''"
  have readable: "\<forall>f \<in> set ?files. \<exists>content. readFileSync example_sources f = Inr content"
    by (simp add: example_sources_def)
  have recs: "dg_records example_sources ?files = [?A, ?B]"
    by (simp add: dg_records_def file_content_def example_sources_def)
  have recs': "psa_records example_sources ?files = [?A', ?B']"
    by (simp add: psa_records_def file_content_def example_sources_def)
  have A: "sr_package ?A = ''p'' \<and> sr_type ?A = Class \<and> sr_className ?A = ''A''"
    by code_simp
  have B: "sr_package ?B = [] \<and> sr_type ?B = Interface \<and> sr_className ?B = ''B''"
    by code_simp
  have A': "sr_package ?A' = ''p'' \<and> sr_type ?A' = Class \<and> sr_className ?A' = ''A''"
    by code_simp
  have B': "sr_package ?B' = [] \<and> sr_type ?B' = Interface \<and> sr_className ?B' = ''B''"
    by code_simp
  have keys: "''p'' \<notin> set object_prototype_keys" "[] \<notin> set object_prototype_keys"
    by (simp_all add: object_prototype_keys_def)
  have nokeys: "\<forall>x \<in> set (dg_records example_sources ?files). sr_package x \<notin> set object_prototype_keys"
    unfolding recs using A B keys by simp
  have nokeys': "\<forall>x \<in> set (psa_records example_sources ?files). sr_package x \<notin> set object_prototype_keys"
    unfolding recs' using A' B' keys by simp
  note total = C3_aggregation [of example_sources ?files]
  have "\<exists>m. DocumentationGenerator_analyzeProject example_sources ?files = Inr m"
    using conjunct1 [OF conjunct2 [OF conjunct2 [OF total]]] readable nokeys by (rule mp [OF _ conjI])
  then obtain m where run: "DocumentationGenerator_analyzeProject example_sources ?files = Inr m" ..
  have "\<exists>m. ProjectStructureAnalyzer_analyzeProjectStructure example_sources ?files = Inr m"
    using conjunct2 [OF conjunct2 [OF conjunct2 [OF total]]] readable nokeys' by (rule mp [OF _ conjI])
  then obtain m' where run': "ProjectStructureAnalyzer_analyzeProjectStructure example_sources ?files = Inr m'" ..
  have dgA: "an_classes m = filter (\<lambda>x. sr_type x = Class) (dg_records example_sources ?files) \<and>
      an_interfaces m = filter (\<lambda>x. sr_type x = Interface) (dg_records example_sources ?files) \<and>
      an_enums m = filter (\<lambda>x. sr_type x = Enum) (dg_records example_sources ?files) \<and>
      dg_aggregates_holding ?A m =
        (if ?A \<in> set (dg_records example_sources ?files) \<and> sr_package ?A \<noteq> [] then [sr_package ?A] else [])"
    using conjunct1 [OF C3_aggregation [of example_sources ?files m ?A]] run
    by (rule mp)
  have dgB: "an_classes m = filter (\<lambda>x. sr_type x = Class) (dg_records example_sources ?files) \<and>
      an_interfaces m = filter (\<lambda>x. sr_type x = Interface) (dg_records example_sources ?files) \<and>
      an_enums m = filter (\<lambda>x. sr_type x = Enum) (dg_records example_sources ?files) \<and>
      dg_aggregates_holding ?B m =
        (if ?B \<in> set (dg_records example_sources ?files) \<and> sr_package ?B \<noteq> [] then [sr_package ?B] else [])"
    using conjunct1 [OF C3_aggregation [of example_sources ?files m ?B]] run
    by (rule mp)
  have psaA: "an_classes m' =
        filter (\<lambda>x. sr_type x = Class \<and> sr_package x \<noteq> []) (psa_records example_sources ?files) \<and>
      an_interfaces m' =
        filter (\<lambda>x. sr_type x = Interface \<and> sr_package x \<noteq> []) (psa_records example_sources ?files) \<and>
      an_enums m' =
        filter (\<lambda>x. sr_type x = Enum \<and> sr_package x \<noteq> []) (psa_records example_sources ?files) \<and>
      psa_aggregates_holding ?A' m' =
        (if ?A' \<in> set (psa_records example_sources ?files) \<and> sr_package ?A' \<noteq> [] then [sr_package ?A'] else [])"
    using conjunct1 [OF conjunct2 [OF C3_aggregation [of example_sources ?files _ _ m' ?A']]] run'
    by (rule mp)
  have psaB: "an_classes m' =
        filter (\<lambda>x. sr_type x = Class \<and> sr_package x \<noteq> []) (psa_records example_sources ?files) \<and>
      an_interfaces m' =
        filter (\<lambda>x. sr_type x = Interface \<and> sr_package x \<noteq> []) (psa_records example_sources ?files) \<and>
      an_enums m' =
        filter (\<lambda>x. sr_type x = Enum \<and> sr_package x \<noteq> []) (psa_records example_sources ?files) \<and>
      psa_aggregates_holding ?B' m' =
        (if ?B' \<in> set (psa_records example_sources ?files) \<and> sr_package ?B' \<noteq> [] then [sr_package ?B'] else [])"
    using conjunct1 [OF conjunct2 [OF C3_aggregation [of example_sources ?files _ _ m' ?B']]] run'
    by (rule mp)
  have dg: "map sr_className (an_classes m) = [''A''] \<and>
        map sr_className (an_interfaces m) = [''B''] \<and>
        an_enums m = [] \<and>
        dg_aggregates_holding ?A m = [''p''] \<and>
        dg_aggregates_holding ?B m = []"
    using dgA dgB A B unfolding recs by simp
  have psa: "map sr_className (an_classes m') = [''A''] \<and>
        an_interfaces m' = [] \<and>
        an_enums m' = [] \<and>
        psa_aggregates_holding ?A' m' = [''p''] \<and>
        psa_aggregates_holding ?B' m' = []"
    using psaA psaB A' B' unfolding recs' by simp
  show ?thesis
  proof (intro conjI)
    show "\<exists>m. DocumentationGenerator_analyzeProject example_sources ?files = Inr m \<and>
        map sr_className (an_classes m) = [''A''] \<and>
        map sr_className (an_interfaces m) = [''B''] \<and>
        an_enums m = [] \<and>
        dg_aggregates_holding ?A m = [''p''] \<and>
        dg_aggregates_holding ?B m = []"
      using run dg by (intro exI [of _ m] conjI) simp_all
    show "\<exists>m. ProjectStructureAnalyzer_analyzeProjectStructure example_sources ?files = Inr m \<and>
        map sr_className (an_classes m) = [''A''] \<and>
        an_interfaces m = [] \<and>
        an_enums m = [] \<and>
        psa_aggregates_holding ?A' m = [''p''] \<and>
        psa_aggregates_holding ?B' m = []"
      using run' psa by (intro exI [of _ m'] conjI) simp_all
  qed
qed

section \<open>Properties of the parsers\<close>


text \<open>Every type line whose pattern matches assigns the class name in the two
  \<open>analyzeJavaFile\<close> parsers, whatever the name was before; \<open>analyzeJavaClass\<close> keeps a
  name once it has one.\<close>

lemma assign_type_name:
  "ps_className (assign_type line st) =
     (case declared_name line of None \<Rightarrow> ps_className st | Some ident \<Rightarrow> ident)"
  by (simp add: assign_type_def declared_name_def split: option.splits)

lemma extract_keep_name:
  "ps_className (extract_package line st) = ps_className st"
  "ps_className (extract_imports line st) = ps_className st"
  "ps_className (extract_methods line st) = ps_className st"
  "ps_className (extract_fields line st) = ps_className st"
  "ps_className (collect_javadoc line st) = ps_className st"
  by (simp_all add: extract_package_def extract_imports_def extract_methods_def extract_fields_def
      collect_javadoc_def split: option.splits)

lemma type_line_overwrites:
  assumes "is_type_line (trim raw)" and "declared_name (trim raw) = Some ident"
  shows "ps_className (DocumentationGenerator_line st raw) = ident"
    and "ps_className (ProjectStructureAnalyzer_line st raw) = ident"
proof -
  show "ps_className (DocumentationGenerator_line st raw) = ident"
    using assms
    by (simp add: DocumentationGenerator_line_def Let_def extract_keep_name extract_class_def
        assign_type_name)
  have "ps_className (assign_type (trim raw) (extract_package (trim raw) st)) = ident"
    using assms by (simp add: assign_type_name)
  then show "ps_className (ProjectStructureAnalyzer_line st raw) = ident"
    using assms(1)
    by (simp add: ProjectStructureAnalyzer_line_def Let_def split: option.splits prod.splits)
qed

lemma first_class_name_kept:
  "jc_className st \<noteq> [] \<Longrightarrow> jc_className (analyzeJavaClass_line st raw) = jc_className st"
  by (simp add: analyzeJavaClass_line_def Let_def split: option.splits prod.splits)

lemma extractMethod_None: "(extractMethod line javadoc = None) = (extractMethod line [] = None)"
  by (simp add: extractMethod_def split: option.splits)

lemma extractField_None: "(extractField line javadoc = None) = (extractField line [] = None)"
  by (simp add: extractField_def split: option.splits)

lemma extractMethod_javadoc: "extractMethod line [] = Some method \<Longrightarrow> m_javadoc method = []"
  by (auto simp add: extractMethod_def trim_def trimEnd_def trimStart_def split: option.splits)

lemma extractField_javadoc: "extractField line [] = Some field \<Longrightarrow> f_javadoc field = []"
  by (auto simp add: extractField_def trim_def trimEnd_def trimStart_def split: option.splits)

lemma assign_type_keeps:
  "ps_methods (assign_type line st) = ps_methods st \<and>
   ps_fields (assign_type line st) = ps_fields st \<and>
   ps_javadoc (assign_type line st) = ps_javadoc st \<and>
   ps_currentJavadoc (assign_type line st) = ps_currentJavadoc st"
  by (simp add: assign_type_def split: option.splits)

lemma package_imports_keep:
  "ps_methods (extract_imports line (extract_package line st)) = ps_methods st \<and>
   ps_fields (extract_imports line (extract_package line st)) = ps_fields st \<and>
   ps_javadoc (extract_imports line (extract_package line st)) = ps_javadoc st \<and>
   ps_currentJavadoc (extract_imports line (extract_package line st)) = ps_currentJavadoc st"
  by (simp add: extract_imports_def extract_package_def)

text \<open>What a line does to the Javadoc buffer when it is no declaration: a line that
  starts with \<open>/**\<close> or \<open>*\<close>, or in which \<open>*/\<close> occurs anywhere, is added to the buffer; a
  blank line and a line comment leave it; every other line empties it.\<close>

lemma buffer_after_line:
  assumes "\<not> recognized_declaration (trim raw)"
  shows "ps_currentJavadoc (DocumentationGenerator_line st raw) =
     (if startsWith (trim raw) ''/**'' \<or> startsWith (trim raw) ''*'' \<or> str_includes (trim raw) ''*/''
      then ps_currentJavadoc st @ trim raw @ [newline]
      else if trim raw = [] \<or> startsWith (trim raw) ''//'' then ps_currentJavadoc st
      else [])"
proof -
  let ?line = "trim raw"
  let ?st2 = "extract_imports ?line (extract_package ?line st)"
  have no_type: "\<not> is_type_line ?line"
    and no_method: "is_method_line ?line \<Longrightarrow> extractMethod ?line javadoc = None"
    and no_field: "is_field_line ?line \<Longrightarrow> extractField ?line javadoc = None" for javadoc
    using assms extractMethod_None [of ?line javadoc] extractField_None [of ?line javadoc]
    by (auto simp add: recognized_declaration_def)
  have c: "extract_class ?line ?st2 = ?st2"
    using no_type by (simp add: extract_class_def)
  have m: "extract_methods ?line ?st2 = ?st2"
    using no_method by (simp add: extract_methods_def)
  have f: "extract_fields ?line ?st2 = ?st2"
    using no_field by (simp add: extract_fields_def)
  have "DocumentationGenerator_line st raw = collect_javadoc ?line ?st2"
    by (simp add: DocumentationGenerator_line_def Let_def c m f)
  then show ?thesis
    using package_imports_keep [of ?line st]
    by (auto simp add: collect_javadoc_def is_javadoc_line_def startsWith_def)
qed

text \<open>A line that is not blank, does not start with \<open>/**\<close>, \<open>*\<close> or \<open>//\<close> and in which \<open>*/\<close> does
  not occur leaves the Javadoc buffer empty, whatever it held and whatever it declares.\<close>

lemma code_line_clears:
  assumes "trim raw \<noteq> []" and "\<not> startsWith (trim raw) ''/**''" and "\<not> startsWith (trim raw) ''*''"
    and "\<not> startsWith (trim raw) ''//''" and "\<not> str_includes (trim raw) ''*/''"
  shows "ps_currentJavadoc (DocumentationGenerator_line st raw) = []"
  using assms
  by (simp add: DocumentationGenerator_line_def Let_def collect_javadoc_def is_javadoc_line_def)

text \<open>A line that is no declaration attaches nothing.\<close>

lemma no_declaration_attaches_nothing:
  assumes "\<not> recognized_declaration (trim raw)"
  shows "ps_methods (DocumentationGenerator_line st raw) = ps_methods st \<and>
         ps_fields (DocumentationGenerator_line st raw) = ps_fields st \<and>
         ps_javadoc (DocumentationGenerator_line st raw) = ps_javadoc st"
proof -
  let ?line = "trim raw"
  let ?st2 = "extract_imports ?line (extract_package ?line st)"
  have no_type: "\<not> is_type_line ?line"
    and no_method: "is_method_line ?line \<Longrightarrow> extractMethod ?line javadoc = None"
    and no_field: "is_field_line ?line \<Longrightarrow> extractField ?line javadoc = None" for javadoc
    using assms extractMethod_None [of ?line javadoc] extractField_None [of ?line javadoc]
    by (auto simp add: recognized_declaration_def)
  have c: "extract_class ?line ?st2 = ?st2"
    using no_type by (simp add: extract_class_def)
  have m: "extract_methods ?line ?st2 = ?st2"
    using no_method by (simp add: extract_methods_def)
  have f: "extract_fields ?line ?st2 = ?st2"
    using no_field by (simp add: extract_fields_def)
  have "DocumentationGenerator_line st raw = collect_javadoc ?line ?st2"
    by (simp add: DocumentationGenerator_line_def Let_def c m f)
  then show ?thesis
    using package_imports_keep [of ?line st] by (simp add: collect_javadoc_def)
qed

text \<open>With an empty buffer, a line that adds no Javadoc leaves the buffer empty, and
  whatever it declares gets an empty Javadoc.\<close>

lemma appended_with_append: "appended_with P old (old @ xs) = list_all P xs"
  by (simp add: appended_with_def)

lemma appended_with_same: "appended_with P old old"
  by (simp add: appended_with_def)

lemma appended_with_trans:
  assumes "appended_with P xs ys" and "appended_with P ys zs"
  shows "appended_with P xs zs"
proof -
  have ys: "ys = xs @ drop (length xs) ys"
    using assms(1) append_take_drop_id [of "length xs" ys] by (simp add: appended_with_def)
  have zs: "zs = ys @ drop (length ys) zs"
    using assms(2) append_take_drop_id [of "length ys" zs] by (simp add: appended_with_def)
  have "zs = xs @ (drop (length xs) ys @ drop (length ys) zs)"
    using ys zs by (metis append.assoc)
  moreover have "list_all P (drop (length xs) ys @ drop (length ys) zs)"
    using assms by (simp add: appended_with_def)
  ultimately show ?thesis
    using appended_with_append [of P xs "drop (length xs) ys @ drop (length ys) zs"] by simp
qed

lemma extract_class_empty:
  assumes "ps_currentJavadoc st = []"
  shows "ps_currentJavadoc (extract_class line st) = [] \<and>
         ps_methods (extract_class line st) = ps_methods st \<and>
         ps_fields (extract_class line st) = ps_fields st \<and>
         ps_javadoc (extract_class line st) = (if is_type_line line then [] else ps_javadoc st)"
  using assms assign_type_keeps [of line st] by (simp add: extract_class_def Let_def)

lemma extract_methods_empty:
  assumes "ps_currentJavadoc st = []"
  shows "ps_currentJavadoc (extract_methods line st) = [] \<and>
         appended_with (\<lambda>x. m_javadoc x = []) (ps_methods st) (ps_methods (extract_methods line st)) \<and>
         ps_fields (extract_methods line st) = ps_fields st \<and>
         ps_javadoc (extract_methods line st) = ps_javadoc st"
proof (cases "is_method_line line")
  case False
  then show ?thesis using assms by (simp add: extract_methods_def appended_with_same)
next
  case True
  show ?thesis
  proof (cases "extractMethod line []")
    case None
    then show ?thesis using assms True by (simp add: extract_methods_def appended_with_same)
  next
    case (Some found)
    then have "m_javadoc found = []" by (rule extractMethod_javadoc)
    then show ?thesis using assms True Some by (simp add: extract_methods_def appended_with_append)
  qed
qed

lemma extract_fields_empty:
  assumes "ps_currentJavadoc st = []"
  shows "ps_currentJavadoc (extract_fields line st) = [] \<and>
         ps_methods (extract_fields line st) = ps_methods st \<and>
         appended_with (\<lambda>x. f_javadoc x = []) (ps_fields st) (ps_fields (extract_fields line st)) \<and>
         ps_javadoc (extract_fields line st) = ps_javadoc st"
proof (cases "is_field_line line")
  case False
  then show ?thesis using assms by (simp add: extract_fields_def appended_with_same)
next
  case True
  show ?thesis
  proof (cases "extractField line []")
    case None
    then show ?thesis using assms True by (simp add: extract_fields_def appended_with_same)
  next
    case (Some found)
    then have "f_javadoc found = []" by (rule extractField_javadoc)
    then show ?thesis using assms True Some by (simp add: extract_fields_def appended_with_append)
  qed
qed

lemma collect_javadoc_keeps:
  "ps_methods (collect_javadoc line st) = ps_methods st \<and>
   ps_fields (collect_javadoc line st) = ps_fields st \<and>
   ps_javadoc (collect_javadoc line st) = ps_javadoc st"
  by (simp add: collect_javadoc_def)

lemma collect_javadoc_empty:
  "ps_currentJavadoc st = [] \<Longrightarrow> \<not> is_javadoc_line line \<Longrightarrow>
   ps_currentJavadoc (collect_javadoc line st) = []"
  by (simp add: collect_javadoc_def)

text \<open>With an empty buffer, whatever a line declares gets an empty Javadoc; if the line
  adds no Javadoc, the buffer is empty after it as well.\<close>

lemma empty_buffer_step:
  assumes "ps_currentJavadoc st = []"
  shows "appended_with (\<lambda>x. m_javadoc x = []) (ps_methods st)
           (ps_methods (DocumentationGenerator_line st raw)) \<and>
         appended_with (\<lambda>x. f_javadoc x = []) (ps_fields st)
           (ps_fields (DocumentationGenerator_line st raw)) \<and>
         ps_javadoc (DocumentationGenerator_line st raw) =
           (if is_type_line (trim raw) then [] else ps_javadoc st) \<and>
         (\<not> is_javadoc_line (trim raw) \<longrightarrow>
            ps_currentJavadoc (DocumentationGenerator_line st raw) = [])"
proof -
  let ?line = "trim raw"
  define s2 where "s2 = extract_imports ?line (extract_package ?line st)"
  define s3 where "s3 = extract_class ?line s2"
  define s4 where "s4 = extract_methods ?line s3"
  define s5 where "s5 = extract_fields ?line s4"
  have whole: "DocumentationGenerator_line st raw = collect_javadoc ?line s5"
    by (simp add: DocumentationGenerator_line_def Let_def s2_def s3_def s4_def s5_def)
  have p2: "ps_currentJavadoc s2 = [] \<and> ps_methods s2 = ps_methods st \<and>
      ps_fields s2 = ps_fields st \<and> ps_javadoc s2 = ps_javadoc st"
    using package_imports_keep [of ?line st] assms by (simp add: s2_def)
  have p3: "ps_currentJavadoc s3 = [] \<and> ps_methods s3 = ps_methods st \<and>
      ps_fields s3 = ps_fields st \<and>
      ps_javadoc s3 = (if is_type_line ?line then [] else ps_javadoc st)"
    using extract_class_empty [of s2 ?line] p2 by (simp add: s3_def)
  have p4: "ps_currentJavadoc s4 = [] \<and>
      appended_with (\<lambda>x. m_javadoc x = []) (ps_methods st) (ps_methods s4) \<and>
      ps_fields s4 = ps_fields st \<and>
      ps_javadoc s4 = (if is_type_line ?line then [] else ps_javadoc st)"
    using extract_methods_empty [of s3 ?line] p3 by (simp add: s4_def)
  have p5: "ps_currentJavadoc s5 = [] \<and>
      appended_with (\<lambda>x. m_javadoc x = []) (ps_methods st) (ps_methods s5) \<and>
      appended_with (\<lambda>x. f_javadoc x = []) (ps_fields st) (ps_fields s5) \<and>
      ps_javadoc s5 = (if is_type_line ?line then [] else ps_javadoc st)"
    using extract_fields_empty [of s4 ?line] p4 by (simp add: s5_def)
  show ?thesis
    unfolding whole
    using collect_javadoc_keeps [of ?line s5] collect_javadoc_empty [of s5 ?line] p5 by simp
qed

lemma empty_buffer_lines:
  assumes "ps_currentJavadoc st = []" and "\<forall>l \<in> set ls. \<not> is_javadoc_line (trim l)"
  shows "ps_currentJavadoc (foldl DocumentationGenerator_line st ls) = [] \<and>
         appended_with (\<lambda>x. m_javadoc x = []) (ps_methods st)
           (ps_methods (foldl DocumentationGenerator_line st ls)) \<and>
         appended_with (\<lambda>x. f_javadoc x = []) (ps_fields st)
           (ps_fields (foldl DocumentationGenerator_line st ls)) \<and>
         ps_javadoc (foldl DocumentationGenerator_line st ls) =
           (if \<exists>l \<in> set ls. is_type_line (trim l) then [] else ps_javadoc st)"
  using assms
proof (induction ls rule: rev_induct)
  case Nil
  then show ?case by (simp add: appended_with_same)
next
  case (snoc l ls)
  let ?mid = "foldl DocumentationGenerator_line st ls"
  let ?end = "DocumentationGenerator_line ?mid l"
  have ih: "ps_currentJavadoc ?mid = [] \<and>
         appended_with (\<lambda>x. m_javadoc x = []) (ps_methods st) (ps_methods ?mid) \<and>
         appended_with (\<lambda>x. f_javadoc x = []) (ps_fields st) (ps_fields ?mid) \<and>
         ps_javadoc ?mid = (if \<exists>l \<in> set ls. is_type_line (trim l) then [] else ps_javadoc st)"
    using snoc by simp
  have step: "appended_with (\<lambda>x. m_javadoc x = []) (ps_methods ?mid) (ps_methods ?end) \<and>
         appended_with (\<lambda>x. f_javadoc x = []) (ps_fields ?mid) (ps_fields ?end) \<and>
         ps_javadoc ?end = (if is_type_line (trim l) then [] else ps_javadoc ?mid) \<and>
         ps_currentJavadoc ?end = []"
    using empty_buffer_step [of ?mid l] ih snoc.prems(2) by simp
  have "appended_with (\<lambda>x. m_javadoc x = []) (ps_methods st) (ps_methods ?end)"
    using ih step appended_with_trans by blast
  moreover have "appended_with (\<lambda>x. f_javadoc x = []) (ps_fields st) (ps_fields ?end)"
    using ih step appended_with_trans by blast
  moreover have "ps_javadoc ?end =
      (if \<exists>x \<in> set (ls @ [l]). is_type_line (trim x) then [] else ps_javadoc st)"
    using step ih by auto
  ultimately show ?case
    using step by simp
qed

text \<open>
  C6 (as stated: every line that is not blank, no Javadoc or comment continuation and no
  line comment, between a Javadoc block and the next declaration, makes the parser attach
  the block to nothing). The annotation \<open>@Scheduled(cron = "0 */5 * * * *")\<close> is such a line
  and no declaration. Because \<open>*/\<close> occurs in it, the parser adds it to the buffer, and the
  method on the next line gets the block and the annotation as its Javadoc.
\<close>

theorem C6_comment_end_in_code_keeps_javadoc:
  "trim scheduled_annotation \<noteq> [] \<and>
   \<not> startsWith (trim scheduled_annotation) ''/**'' \<and>
   \<not> startsWith (trim scheduled_annotation) ''*'' \<and>
   \<not> startsWith (trim scheduled_annotation) ''//'' \<and>
   \<not> recognized_declaration (trim scheduled_annotation) \<and>
   sr_methods (DocumentationGenerator_analyzeJavaFile
     (''/** Runs the job. */\<newline>'' @ scheduled_annotation @ ''\<newline>public void run() {'') ''Job.java'') =
     [\<lparr>m_visibility = ''public'', m_returnType = ''void'', m_name = ''run'',
       m_javadoc = ''/** Runs the job. */\<newline>'' @ scheduled_annotation\<rparr>]"
  by code_simp

text \<open>
  C6, amended. For every input file: a line that, trimmed, is not blank, does not start
  with \<open>/**\<close>, \<open>*\<close> or \<open>//\<close>, and in which \<open>*/\<close> does not occur, and that is itself no recognised
  declaration, clears the Javadoc buffer and attaches nothing, whatever Javadoc block came
  before it. When a declaration follows it, with no Javadoc line on the lines in between,
  the lines from the cleared buffer on attach only empty Javadoc: every method and field
  they add has an empty Javadoc, and the Javadoc of the type is empty when one of them is
  a type line. The block before the line of code is attached to no construct.
\<close>

theorem C6_javadoc_dropped_by_code_line:
  assumes "trim raw \<noteq> []"
    and "\<not> startsWith (trim raw) ''/**''"
    and "\<not> startsWith (trim raw) ''*''"
    and "\<not> startsWith (trim raw) ''//''"
    and "\<not> str_includes (trim raw) ''*/''"
    and "\<not> recognized_declaration (trim raw)"
    and "\<forall>l \<in> set between.
           \<not> startsWith (trim l) ''/**'' \<and> \<not> startsWith (trim l) ''*'' \<and> \<not> str_includes (trim l) ''*/''"
    and "\<not> startsWith (trim decl) ''/**'' \<and> \<not> startsWith (trim decl) ''*'' \<and>
         \<not> str_includes (trim decl) ''*/''"
  shows "ps_currentJavadoc (DocumentationGenerator_line st raw) = [] \<and>
         ps_methods (DocumentationGenerator_line st raw) = ps_methods st \<and>
         ps_fields (DocumentationGenerator_line st raw) = ps_fields st \<and>
         ps_javadoc (DocumentationGenerator_line st raw) = ps_javadoc st \<and>
         appended_with (\<lambda>x. m_javadoc x = []) (ps_methods st)
           (ps_methods (foldl DocumentationGenerator_line st (raw # between @ [decl]))) \<and>
         appended_with (\<lambda>x. f_javadoc x = []) (ps_fields st)
           (ps_fields (foldl DocumentationGenerator_line st (raw # between @ [decl]))) \<and>
         ps_javadoc (foldl DocumentationGenerator_line st (raw # between @ [decl])) =
           (if \<exists>l \<in> set (between @ [decl]). is_type_line (trim l) then []
            else ps_javadoc st) \<and>
         ps_currentJavadoc (foldl DocumentationGenerator_line st (raw # between @ [decl])) = []"
proof -
  let ?st1 = "DocumentationGenerator_line st raw"
  let ?st2 = "foldl DocumentationGenerator_line ?st1 between"
  let ?st3 = "DocumentationGenerator_line ?st2 decl"
  have cleared: "ps_currentJavadoc ?st1 = []"
    using assms(1-5) by (rule code_line_clears)
  have same: "ps_methods ?st1 = ps_methods st \<and> ps_fields ?st1 = ps_fields st \<and>
      ps_javadoc ?st1 = ps_javadoc st"
    using assms(6) by (rule no_declaration_attaches_nothing)
  have between: "\<forall>l \<in> set between. \<not> is_javadoc_line (trim l)"
    using assms(7) by (simp add: is_javadoc_line_def)
  have decl: "\<not> is_javadoc_line (trim decl)"
    using assms(8) by (simp add: is_javadoc_line_def)
  note mid = empty_buffer_lines [OF cleared between]
  then have empty2: "ps_currentJavadoc ?st2 = []"
    by blast
  note last = empty_buffer_step [OF empty2, of decl]
  have whole: "foldl DocumentationGenerator_line st (raw # between @ [decl]) = ?st3"
    by simp
  have "appended_with (\<lambda>x. m_javadoc x = []) (ps_methods st) (ps_methods ?st3)"
    using mid last same appended_with_trans by metis
  moreover have "appended_with (\<lambda>x. f_javadoc x = []) (ps_fields st) (ps_fields ?st3)"
    using mid last same appended_with_trans by metis
  moreover have "ps_javadoc ?st3 =
      (if \<exists>l \<in> set (between @ [decl]). is_type_line (trim l) then []
       else ps_javadoc st)"
    using mid last same by auto
  moreover have "ps_currentJavadoc ?st3 = []"
    using last decl by simp
  ultimately show ?thesis
    unfolding whole using cleared same by simp
qed

text \<open>An annotation between the Javadoc block and the class: the block is dropped. Without
  the annotation it is attached.\<close>

theorem C6_javadoc_dropped_by_code_line_witness:
  "ps_currentJavadoc (foldl DocumentationGenerator_line initial_state [''/** Doc */'']) =
     ''/** Doc */\<newline>'' \<and>
   ps_javadoc (foldl DocumentationGenerator_line initial_state
     [''/** Doc */'', ''@Service'', ''public class Foo {'']) = [] \<and>
   ps_javadoc (foldl DocumentationGenerator_line initial_state
     [''/** Doc */'', ''public class Foo {'']) = ''/** Doc */\<newline>''"
proof -
  let ?st = "foldl DocumentationGenerator_line initial_state [''/** Doc */'']"
  have code: "trim ''@Service'' \<noteq> []" "\<not> startsWith (trim ''@Service'') ''/**''"
    "\<not> startsWith (trim ''@Service'') ''*''" "\<not> startsWith (trim ''@Service'') ''//''"
    "\<not> str_includes (trim ''@Service'') ''*/''"
    by code_simp+
  have no_decl: "\<not> recognized_declaration (trim ''@Service'')"
    by code_simp
  have between: "\<forall>l \<in> set [].
      \<not> startsWith (trim l) ''/**'' \<and> \<not> startsWith (trim l) ''*'' \<and> \<not> str_includes (trim l) ''*/''"
    by simp
  have decl: "\<not> startsWith (trim ''public class Foo {'') ''/**'' \<and>
      \<not> startsWith (trim ''public class Foo {'') ''*'' \<and>
      \<not> str_includes (trim ''public class Foo {'') ''*/''"
    by code_simp
  have type_line: "is_type_line (trim ''public class Foo {'')"
    by code_simp
  have "ps_javadoc (foldl DocumentationGenerator_line ?st (''@Service'' # [] @ [''public class Foo {''])) = []"
    using C6_javadoc_dropped_by_code_line [OF code no_decl between decl, of ?st]
      type_line by simp
  then have dropped: "ps_javadoc (foldl DocumentationGenerator_line initial_state
     [''/** Doc */'', ''@Service'', ''public class Foo {'']) = []"
    by simp
  have buffer: "ps_currentJavadoc (foldl DocumentationGenerator_line initial_state [''/** Doc */'']) =
     ''/** Doc */\<newline>''"
    by code_simp
  have kept: "ps_javadoc (foldl DocumentationGenerator_line initial_state
     [''/** Doc */'', ''public class Foo {'']) = ''/** Doc */\<newline>''"
    by code_simp
  show ?thesis
    using buffer dropped kept by blast
qed

section \<open>Properties of the reports\<close>

subsection \<open>Rounding to a double\<close>

text \<open>\<open>exponent_of\<close> is the exponent of the power of two at or below a positive rational.\<close>

lemma exponent_of_bounds:
  assumes "0 < q"
  shows "2 powi (exponent_of q) \<le> q \<and> q < 2 powi (exponent_of q + 1)"
proof -
  obtain p d where pd: "quotient_of q = (p, d)"
    by (cases "quotient_of q")
  have d: "0 < d"
    using pd by (rule quotient_of_denom_pos)
  have q: "q = of_int p / of_int d"
    using pd by (rule quotient_of_div)
  have p: "0 < p"
    using assms d q by (simp add: zero_less_divide_iff)
  define k where "k = bitlen p - bitlen d"
  have bp: "2 ^ nat (bitlen p - 1) \<le> p \<and> p < 2 ^ nat (bitlen p)"
    using p by (rule bitlen_bounds)
  have bd: "2 ^ nat (bitlen d - 1) \<le> d \<and> d < 2 ^ nat (bitlen d)"
    using d by (rule bitlen_bounds)
  have lp: "1 \<le> bitlen p" and ld: "1 \<le> bitlen d"
    using p d bitlen_eq_zero_iff [of p] bitlen_eq_zero_iff [of d] bitlen_nonneg [of p] bitlen_nonneg [of d]
    by linarith+
  have up: "(of_int p :: rat) < 2 powi (bitlen p)"
  proof -
    have "(of_int p :: rat) < of_int (2 ^ nat (bitlen p))"
      using bp by (simp only: of_int_less_iff)
    then show ?thesis using lp by (simp add: power_int_def)
  qed
  have lowd: "(2::rat) powi (bitlen d - 1) \<le> of_int d"
  proof -
    have "(of_int (2 ^ nat (bitlen d - 1)) :: rat) \<le> of_int d"
      using bd by (simp only: of_int_le_iff)
    then show ?thesis using ld by (simp add: power_int_def)
  qed
  have lowp: "(2::rat) powi (bitlen p - 1) \<le> of_int p"
  proof -
    have "(of_int (2 ^ nat (bitlen p - 1)) :: rat) \<le> of_int p"
      using bp by (simp only: of_int_le_iff)
    then show ?thesis using lp by (simp add: power_int_def)
  qed
  have ud: "(of_int d :: rat) < 2 powi (bitlen d)"
  proof -
    have "(of_int d :: rat) < of_int (2 ^ nat (bitlen d))"
      using bd by (simp only: of_int_less_iff)
    then show ?thesis using ld by (simp add: power_int_def)
  qed
  have upper: "q < 2 powi (k + 1)"
  proof -
    have "q < 2 powi (bitlen p) / 2 powi (bitlen d - 1)"
      unfolding q using up lowd d p
      by (intro frac_less) auto
    also have "\<dots> = 2 powi (k + 1)"
      unfolding k_def by (simp add: power_int_diff [symmetric] algebra_simps)
    finally show ?thesis .
  qed
  have lower: "2 powi (k - 1) < q"
  proof -
    have "(2::rat) powi (bitlen p - 1) / 2 powi (bitlen d) < q"
      unfolding q using lowp ud d p
      by (intro frac_less2) auto
    moreover have "(2::rat) powi (bitlen p - 1) / 2 powi (bitlen d) = 2 powi (k - 1)"
      unfolding k_def by (simp add: power_int_diff [symmetric] algebra_simps)
    ultimately show ?thesis by simp
  qed
  have e: "exponent_of q = (if 2 powi k \<le> q then k else k - 1)"
    by (simp add: exponent_of_def pd k_def Let_def)
  show ?thesis
  proof (cases "2 powi k \<le> q")
    case True
    then show ?thesis using e upper by simp
  next
    case False
    then show ?thesis using e lower by (simp add: less_imp_le)
  qed
qed

lemma round_ties_even_nearest: "\<bar>of_int (round_ties_even q) - q\<bar> \<le> 1 / 2"
proof -
  have "of_int \<lfloor>q\<rfloor> \<le> q" and "q < of_int \<lfloor>q\<rfloor> + 1"
    by linarith+
  then show ?thesis
    by (auto simp add: round_ties_even_def Let_def abs_le_iff)
qed

lemma round_ties_even_nonneg: "0 \<le> q \<Longrightarrow> 0 \<le> round_ties_even q"
  by (auto simp add: round_ties_even_def Let_def)

text \<open>Rounding gives a number, and a finite one for every rational below \<open>2^1023\<close>.\<close>

lemma to_double_not_NaN: "to_double q \<noteq> NaN"
  by (simp add: to_double_def Let_def)

lemma to_double_finite:
  assumes "0 \<le> q" and "q < 2 powi 1023"
  shows "\<exists>r. to_double q = Fin r \<and> 0 \<le> r"
proof (cases "q = 0")
  case True
  then show ?thesis by (simp add: to_double_def)
next
  case False
  then have pos: "0 < q" using assms(1) by simp
  have "(2::rat) powi (exponent_of q) < 2 powi 1023"
    using exponent_of_bounds [OF pos] assms(2) by simp
  then have "exponent_of q < 1023"
    using power_int_increasing [of 1023 "exponent_of q" "2::rat"] by (cases "exponent_of q < 1023") auto
  define e where "e = max (exponent_of \<bar>q\<bar> - 52) (- 1074)"
  have e: "e < 971"
    using \<open>exponent_of q < 1023\<close> pos by (simp add: e_def)
  have m: "0 \<le> round_ties_even (\<bar>q\<bar> / 2 powi e)"
    by (intro round_ties_even_nonneg) (use pos in simp)
  have "to_double q = Fin (sgn q * (of_int (round_ties_even (\<bar>q\<bar> / 2 powi e)) * 2 powi e))"
    unfolding to_double_def Let_def e_def [symmetric] using pos e by simp
  moreover have "0 \<le> sgn q * (of_int (round_ties_even (\<bar>q\<bar> / 2 powi e)) * 2 powi e)"
    using pos m by simp
  ultimately show ?thesis
    by blast
qed

subsection \<open>The ratios\<close>

text \<open>In \<open>ProjectStructureAnalyzer\<close> the average is a quotient by \<open>Math.max(totalClasses, 1)\<close>:
  it is a number, whatever the model, and a finite one.\<close>

lemma psa_average_methods_finite:
  "psa_avgMethodsPerClass a \<noteq> NaN \<and>
   (psa_totalMethods a < 2 ^ 1023 \<longrightarrow> (\<exists>q. psa_avgMethodsPerClass a = Fin q \<and> 0 \<le> q))"
proof (intro conjI impI)
  show "psa_avgMethodsPerClass a \<noteq> NaN"
    by (simp add: psa_avgMethodsPerClass_def js_div_def to_double_not_NaN)
  assume small: "psa_totalMethods a < 2 ^ 1023"
  let ?n = "psa_totalMethods a"
  let ?d = "max (length (an_classes a)) 1"
  have "(of_nat ?n :: rat) / of_nat ?d \<le> of_nat ?n"
    by (simp add: divide_le_eq mult_le_cancel_left1)
  also have "\<dots> < 2 powi 1023"
  proof -
    have "(of_nat ?n :: rat) < of_nat (2 ^ 1023)"
      using small by (simp only: of_nat_less_iff)
    then show ?thesis by simp
  qed
  finally have "(of_nat ?n :: rat) / of_nat ?d < 2 powi 1023" .
  moreover have "0 \<le> (of_nat ?n :: rat) / of_nat ?d"
    by simp
  ultimately have "\<exists>r. to_double (of_nat ?n / of_nat ?d) = Fin r \<and> 0 \<le> r"
    by (intro to_double_finite)
  then show "\<exists>q. psa_avgMethodsPerClass a = Fin q \<and> 0 \<le> q"
    by (simp add: psa_avgMethodsPerClass_def js_div_def)
qed

text \<open>
  C1 (evaluation). \<open>generateProjectOverview\<close> divides by \<open>analysis.classes.length\<close> itself.
  For a project whose only file is an interface with one method, in a package, there are
  no classes and one method: the average is \<open>Infinity\<close>, and so is the interface usage.
  For a project whose only file is an interface without methods the average is \<open>NaN\<close>.
\<close>

theorem C1_overview_average_not_finite:
  "(case DocumentationGenerator_analyzeProject
      (world_of None
        (Inr ''package shapes;\<newline>public interface Shape {\<newline>    public double area();\<newline>}''))
      [''/p/Shape.java''] of
      Inl error \<Rightarrow> False
    | Inr m \<Rightarrow>
        an_classes m = [] \<and> dg_totalMethods m = 1 \<and> dg_avgMethodsPerClass m = PosInf \<and>
        overview_insights m =
          ''- **Average methods per class:** Infinity\<newline>- **Package distribution:** 1 packages\<newline>- **Interface usage:** Infinity% of classes are interfaces\<newline>'') \<and>
   (case DocumentationGenerator_analyzeProject
      (world_of None (Inr ''public interface Marker {}'')) [''/p/Marker.java''] of
      Inl error \<Rightarrow> False
    | Inr m \<Rightarrow>
        an_classes m = [] \<and> dg_totalMethods m = 0 \<and> dg_avgMethodsPerClass m = NaN \<and>
        toFixed1 (dg_avgMethodsPerClass m) = ''NaN'')"
  by code_simp

text \<open>The percentages are products of two roundings. With 41 interfaces among 80 types the
  quotient is the double below \<open>0.5125\<close> and the product the double below \<open>51.25\<close>, which prints
  as \<open>51.2\<close>.\<close>

lemma percentage_of_41_in_80:
  "js_div 41 80 = Fin (2308094809027379 / 4503599627370496) \<and>
   js_times (js_div 41 80) 100 = Fin (7212796278210559 / 140737488355328) \<and>
   toFixed1 (js_times (js_div 41 80) 100) = ''51.2'' \<and>
   toFixed1 (js_times (js_div 51 80) 100) = ''63.7'' \<and>
   toFixed1 (js_times (js_div 23 80) 100) = ''28.7'' \<and>
   toFixed1 (js_times (js_div 29 80) 100) = ''36.3''"
  by code_simp



section \<open>Properties of the entry points\<close>

text \<open>
  C8 (as stated: for every tool and every input, \<open>execute\<close> propagates no exception). The
  dispatcher calls \<open>execute\<close> with the arguments of the request as they are; for a request
  without arguments the value is \<open>undefined\<close>. The first statement of each \<open>execute\<close> then
  throws a \<open>TypeError\<close>, outside the \<open>try\<close>: the call is rejected with it, in all five tools; no
  text is returned.
\<close>

theorem C8_execute_rejects_without_arguments:
  "DependencyAnalyzer_execute (world_of None (Inr [])) example_file_system
     (\<lambda>content. Inr ()) (\<lambda>result. Inr []) (\<lambda>content. []) Undefined =
     Inl (cannot_destructure ''undefined'') \<and>
   TestGenerator_execute (world_of None (Inr [])) (\<lambda>c p f. []) (\<lambda>files f. ([], Inr []))
     Undefined = ([], Inl (cannot_destructure ''undefined'')) \<and>
   CodeQualityChecker_execute (world_of None (Inr [])) example_file_system
     (\<lambda>content path bytes metrics. []) (\<lambda>contents metrics. []) Undefined =
     Inl (cannot_destructure ''undefined'') \<and>
   DocumentationGenerator_execute (world_of None (Inr [])) example_file_system
     (\<lambda>analysis private. []) (\<lambda>analysis. []) (\<lambda>project dir files type. []) Undefined =
     Inl (cannot_destructure ''undefined'') \<and>
   ProjectStructureAnalyzer_execute (world_of None (Inr [])) example_file_system
     (\<lambda>analysis project files architecture metrics. []) Undefined =
     Inl (cannot_destructure ''undefined'') \<and>
   error_text (cannot_destructure ''undefined'') =
     ''Cannot destructure property '' @ [CHR 0x27] @ ''projectPath'' @ [CHR 0x27] @ '' of '' @
     [CHR 0x27] @ ''args'' @ [CHR 0x27] @ '' as it is undefined.''"
  by code_simp

text \<open>What comes back as text, in examples: a file that cannot be read
  (\<open>generate_tests\<close>), a package with the name of a property that every object inherits
  (\<open>generate_documentation\<close>, \<open>analyze_project_structure\<close>), a document that cannot be written, a
  file whose size cannot be asked (\<open>check_code_quality\<close>), and a manifest that cannot be
  parsed (\<open>analyze_dependencies\<close>). A directory that cannot be listed is no failure of the
  call: the walk leaves it out.\<close>

lemma failures_come_back_as_text:
  "TestGenerator_execute (world_of (Some example_listing) (Inl (Error ''ENOENT'')))
     (\<lambda>c p f. jc_className c) (\<lambda>files f. ([], Inr []))
     (Object \<lparr>ta_projectPath = ''/p'', ta_className = Some ''Service'', ta_testFramework = None\<rparr>) =
     ([''/p/src/service/Helper.java''], Inr ''Error generating tests: ENOENT'') \<and>
   DocumentationGenerator_execute
     (world_of (Some [File ''A.java'']) (Inr ''package constructor;\<newline>public class A {}''))
     example_file_system (\<lambda>analysis private. []) (\<lambda>analysis. []) (\<lambda>project dir files type. ''done'')
     (Object \<lparr>doc_projectPath = ''/p'', doc_outputPath = None, doc_documentationType = None,
              doc_includePrivate = None\<rparr>) =
     Inr (''Error generating documentation: '' @ error_text push_of_undefined) \<and>
   ProjectStructureAnalyzer_execute
     (world_of (Some [File ''A.java'']) (Inr ''package toString;\<newline>public class A {}''))
     example_file_system (\<lambda>analysis project files architecture metrics. ''done'')
     (Object \<lparr>sa_projectPath = ''/p'', sa_includeArchitecture = None, sa_includeMetrics = None\<rparr>) =
     Inr (''Error analyzing project structure: '' @ error_text push_of_undefined) \<and>
   DocumentationGenerator_execute
     (world_of (Some [File ''A.java'']) (Inr ''package p;\<newline>public class A {}''))
     (example_file_system\<lparr>writeFileSync := (\<lambda>path content. Some (Error ''EROFS''))\<rparr>)
     (\<lambda>analysis private. []) (\<lambda>analysis. []) (\<lambda>project dir files type. ''done'')
     (Object \<lparr>doc_projectPath = ''/p'', doc_outputPath = None, doc_documentationType = Some ''api'',
              doc_includePrivate = None\<rparr>) =
     Inr ''Error generating documentation: EROFS'' \<and>
   CodeQualityChecker_execute (world_of None (Inr ''class A {}''))
     (example_file_system\<lparr>statSync_size := (\<lambda>path. Inl (Error ''EACCES''))\<rparr>)
     (\<lambda>content path bytes metrics. ''done'') (\<lambda>contents metrics. ''done'')
     (Object \<lparr>qa_projectPath = ''/p'', qa_filePath = Some ''/p/A.java'', qa_includeMetrics = None\<rparr>) =
     Inr ''Error checking code quality: EACCES'' \<and>
   DependencyAnalyzer_execute (world_of None (Inr ''<project''))
     example_file_system (\<lambda>content. Inl (Error ''Unclosed root tag'') :: js_thrown + unit)
     (\<lambda>result. Inr ''done'') (\<lambda>content. ''done'') (Object \<lparr>da_projectPath = ''/p''\<rparr>) =
     Inr ''Error analyzing dependencies: Unclosed root tag'' \<and>
   DocumentationGenerator_execute (world_of None (Inr []))
     example_file_system (\<lambda>analysis private. []) (\<lambda>analysis. []) (\<lambda>project dir files type. ''done'')
     (Object \<lparr>doc_projectPath = ''/p'', doc_outputPath = None, doc_documentationType = None,
              doc_includePrivate = None\<rparr>) =
     Inr no_java_files_message"
  by code_simp

text \<open>When nothing fails, no error text comes back: with an existing project path, files
  that can be read and no package named like an inherited property, the structure analysis
  returns its report; the documentation generator, when also every directory can be made
  and every document written, returns its summary.\<close>

lemma structure_report_when_nothing_fails:
  assumes "existsSync fs (sa_projectPath a)"
    and "ProjectStructureAnalyzer_findJavaFiles w (sa_projectPath a) = files" and "files \<noteq> []"
    and "\<forall>f \<in> set files. \<exists>content. readFileSync w f = Inr content"
    and "\<forall>r \<in> set (psa_records w files). sr_package r \<notin> set object_prototype_keys"
  shows "\<exists>m. ProjectStructureAnalyzer_analyzeProjectStructure w files = Inr m \<and>
             ProjectStructureAnalyzer_execute w fs structureReport (Object a) =
               Inr (structureReport m (sa_projectPath a) (length files)
                      (case sa_includeArchitecture a of None \<Rightarrow> True | Some b \<Rightarrow> b)
                      (case sa_includeMetrics a of None \<Rightarrow> True | Some b \<Rightarrow> b))"
proof -
  obtain m where m: "ProjectStructureAnalyzer_analyzeProjectStructure w files = Inr m"
    unfolding ProjectStructureAnalyzer_analyzeProjectStructure_def
    using psa_loop_returns [OF assms(4,5)] by blast
  then show ?thesis
    using assms(1-3)
    by (simp add: ProjectStructureAnalyzer_execute_def ProjectStructureAnalyzer_try_def
        destructure_def Let_def)
qed

lemma documentation_summary_when_nothing_fails:
  assumes "DocumentationGenerator_findJavaFiles w (doc_projectPath a) = files" and "files \<noteq> []"
    and "\<forall>f \<in> set files. \<exists>content. readFileSync w f = Inr content"
    and "\<forall>r \<in> set (dg_records w files). sr_package r \<notin> set object_prototype_keys"
    and "\<forall>path. mkdirSync fs path = None" and "\<forall>path content. writeFileSync fs path content = None"
  shows "\<exists>m. DocumentationGenerator_analyzeProject w files = Inr m \<and>
             DocumentationGenerator_execute w fs apiDoc javadocSuggestions summary (Object a) =
               Inr (summary (doc_projectPath a)
                      (case doc_outputPath a of
                         None \<Rightarrow> path_join w (doc_projectPath a) ''docs''
                       | Some p \<Rightarrow> if p \<noteq> [] then p else path_join w (doc_projectPath a) ''docs'')
                      (length files)
                      (case doc_documentationType a of None \<Rightarrow> ''all'' | Some t \<Rightarrow> t))"
proof -
  obtain m where m: "DocumentationGenerator_analyzeProject w files = Inr m"
    unfolding DocumentationGenerator_analyzeProject_def
    using dg_loop_returns [OF assms(3,4)] by blast
  have save: "saveDocumentation w fs dir name content = None" for dir name content
    using assms(5,6) by (simp add: saveDocumentation_def)
  show ?thesis
    using assms(1,2) m
    by (simp add: DocumentationGenerator_execute_def DocumentationGenerator_try_def
        destructure_def Let_def save)
qed

text \<open>The dispatcher answers a rejected call with a text of its own, and a call that
  returned an error text like any other.\<close>

lemma dispatcher_answers:
  "call_tool ''analyze_dependencies''
     (DependencyAnalyzer_execute w fs parseString mavenAnalysis gradleAnalysis Undefined) =
     \<lparr>answer_text = ''Error executing tool analyze_dependencies: '' @
                      error_text (cannot_destructure ''undefined''),
      answer_isError = True\<rparr> \<and>
   answer_isError (call_tool ''analyze_dependencies''
     (DependencyAnalyzer_execute w fs parseString mavenAnalysis gradleAnalysis (Object a))) = False"
  by (cases "DependencyAnalyzer_try w fs parseString mavenAnalysis gradleAnalysis (da_projectPath a)")
    (simp_all add: call_tool_def DependencyAnalyzer_execute_def destructure_def)

text \<open>
  C8, amended. For every tool and every arguments object, \<open>execute\<close> propagates no
  exception: whatever happens in its \<open>try\<close> block, it returns a text, the result of the
  block or, when the block throws, the error marker of the tool (which begins with
  \<open>Error\<close>) followed by the text of what was thrown. Called with \<open>undefined\<close> or \<open>null\<close> for
  the arguments, every \<open>execute\<close> is rejected with a \<open>TypeError\<close>.
\<close>

theorem C8_execute_returns_text:
  "((\<exists>text. DependencyAnalyzer_execute w fs parseString mavenAnalysis gradleAnalysis (Object a1) =
             Inr text \<and>
       (case DependencyAnalyzer_try w fs parseString mavenAnalysis gradleAnalysis
               (da_projectPath a1) of
          Inl error \<Rightarrow> text = ''Error analyzing dependencies: '' @ error_text error \<and>
                       startsWith text ''Error''
        | Inr result \<Rightarrow> text = result)) \<and>
    DependencyAnalyzer_execute w fs parseString mavenAnalysis gradleAnalysis Undefined =
      Inl (cannot_destructure ''undefined'') \<and>
    DependencyAnalyzer_execute w fs parseString mavenAnalysis gradleAnalysis Null =
      Inl (cannot_destructure ''null'')) \<and>
   ((\<exists>text. snd (TestGenerator_execute w report allClasses (Object a2)) = Inr text \<and>
       (case snd (TestGenerator_try w report allClasses (ta_projectPath a2) (ta_className a2)
                    (ta_testFramework a2)) of
          Inl error \<Rightarrow> text = ''Error generating tests: '' @ error_text error \<and>
                       startsWith text ''Error''
        | Inr result \<Rightarrow> text = result)) \<and>
    TestGenerator_execute w report allClasses Undefined =
      ([], Inl (cannot_destructure ''undefined'')) \<and>
    TestGenerator_execute w report allClasses Null = ([], Inl (cannot_destructure ''null''))) \<and>
   ((\<exists>text. CodeQualityChecker_execute w fs fileReport projectReport (Object a3) = Inr text \<and>
       (case CodeQualityChecker_try w fs fileReport projectReport a3 of
          Inl error \<Rightarrow> text = ''Error checking code quality: '' @ error_text error \<and>
                       startsWith text ''Error''
        | Inr result \<Rightarrow> text = result)) \<and>
    CodeQualityChecker_execute w fs fileReport projectReport Undefined =
      Inl (cannot_destructure ''undefined'') \<and>
    CodeQualityChecker_execute w fs fileReport projectReport Null =
      Inl (cannot_destructure ''null'')) \<and>
   ((\<exists>text. DocumentationGenerator_execute w fs apiDoc javadocSuggestions summary (Object a4) =
             Inr text \<and>
       (case DocumentationGenerator_try w fs apiDoc javadocSuggestions summary a4 of
          Inl error \<Rightarrow> text = ''Error generating documentation: '' @ error_text error \<and>
                       startsWith text ''Error''
        | Inr result \<Rightarrow> text = result)) \<and>
    DocumentationGenerator_execute w fs apiDoc javadocSuggestions summary Undefined =
      Inl (cannot_destructure ''undefined'') \<and>
    DocumentationGenerator_execute w fs apiDoc javadocSuggestions summary Null =
      Inl (cannot_destructure ''null'')) \<and>
   ((\<exists>text. ProjectStructureAnalyzer_execute w fs structureReport (Object a5) = Inr text \<and>
       (case ProjectStructureAnalyzer_try w fs structureReport a5 of
          Inl error \<Rightarrow> text = ''Error analyzing project structure: '' @ error_text error \<and>
                       startsWith text ''Error''
        | Inr result \<Rightarrow> text = result)) \<and>
    ProjectStructureAnalyzer_execute w fs structureReport Undefined =
      Inl (cannot_destructure ''undefined'') \<and>
    ProjectStructureAnalyzer_execute w fs structureReport Null =
      Inl (cannot_destructure ''null''))"
proof (intro conjI)
  show "\<exists>text. DependencyAnalyzer_execute w fs parseString mavenAnalysis gradleAnalysis (Object a1) =
             Inr text \<and>
       (case DependencyAnalyzer_try w fs parseString mavenAnalysis gradleAnalysis
               (da_projectPath a1) of
          Inl error \<Rightarrow> text = ''Error analyzing dependencies: '' @ error_text error \<and>
                       startsWith text ''Error''
        | Inr result \<Rightarrow> text = result)"
    by (cases "DependencyAnalyzer_try w fs parseString mavenAnalysis gradleAnalysis (da_projectPath a1)")
      (simp_all add: DependencyAnalyzer_execute_def destructure_def startsWith_def)
  show "\<exists>text. CodeQualityChecker_execute w fs fileReport projectReport (Object a3) = Inr text \<and>
       (case CodeQualityChecker_try w fs fileReport projectReport a3 of
          Inl error \<Rightarrow> text = ''Error checking code quality: '' @ error_text error \<and>
                       startsWith text ''Error''
        | Inr result \<Rightarrow> text = result)"
    by (cases "CodeQualityChecker_try w fs fileReport projectReport a3")
      (simp_all add: CodeQualityChecker_execute_def destructure_def startsWith_def)
  show "\<exists>text. DocumentationGenerator_execute w fs apiDoc javadocSuggestions summary (Object a4) =
             Inr text \<and>
       (case DocumentationGenerator_try w fs apiDoc javadocSuggestions summary a4 of
          Inl error \<Rightarrow> text = ''Error generating documentation: '' @ error_text error \<and>
                       startsWith text ''Error''
        | Inr result \<Rightarrow> text = result)"
    by (cases "DocumentationGenerator_try w fs apiDoc javadocSuggestions summary a4")
      (simp_all add: DocumentationGenerator_execute_def destructure_def startsWith_def)
  show "\<exists>text. ProjectStructureAnalyzer_execute w fs structureReport (Object a5) = Inr text \<and>
       (case ProjectStructureAnalyzer_try w fs structureReport a5 of
          Inl error \<Rightarrow> text = ''Error analyzing project structure: '' @ error_text error \<and>
                       startsWith text ''Error''
        | Inr result \<Rightarrow> text = result)"
    by (cases "ProjectStructureAnalyzer_try w fs structureReport a5")
      (simp_all add: ProjectStructureAnalyzer_execute_def destructure_def startsWith_def)
  obtain reads outcome
    where try_eq: "TestGenerator_try w report allClasses (ta_projectPath a2) (ta_className a2)
                    (ta_testFramework a2) = (reads, outcome)"
    by (cases "TestGenerator_try w report allClasses (ta_projectPath a2) (ta_className a2)
                    (ta_testFramework a2)")
  show "\<exists>text. snd (TestGenerator_execute w report allClasses (Object a2)) = Inr text \<and>
       (case snd (TestGenerator_try w report allClasses (ta_projectPath a2) (ta_className a2)
                    (ta_testFramework a2)) of
          Inl error \<Rightarrow> text = ''Error generating tests: '' @ error_text error \<and>
                       startsWith text ''Error''
        | Inr result \<Rightarrow> text = result)"
    by (cases outcome) (simp_all add: TestGenerator_execute_def destructure_def try_eq startsWith_def)
qed (simp_all add: DependencyAnalyzer_execute_def TestGenerator_execute_def
      CodeQualityChecker_execute_def DocumentationGenerator_execute_def
      ProjectStructureAnalyzer_execute_def destructure_def)

end
